theory Spec2Isabelle
  imports Main "HOL-Library.Word"
begin

section \<open>Strings of the host language\<close>

text \<open>
  The plugin is TypeScript; its strings are sequences of UTF-16 code units, and the
  regular expressions of \<^verbatim>\<open>main.ts\<close> carry no \<^verbatim>\<open>u\<close> flag, so they too work on code
  units. A string is therefore a list of 16-bit words. \<open>str\<close> embeds an ASCII literal.
\<close>

type_synonym jschar = "16 word"
type_synonym jsstring = "jschar list"

definition str :: "string \<Rightarrow> jsstring" where
  "str s = map of_char s"

text \<open>
  A value of type \<^verbatim>\<open>string | null\<close> (or \<^verbatim>\<open>undefined\<close>) is a \<open>jsstring option\<close>.
  The tests \<^verbatim>\<open>if (x)\<close> and \<^verbatim>\<open>if (!x)\<close> on such a value take \<^verbatim>\<open>null\<close>,
  \<^verbatim>\<open>undefined\<close> and the empty string as false.
\<close>

definition truthy :: "jsstring option \<Rightarrow> bool" where
  "truthy v = (case v of None \<Rightarrow> False | Some s \<Rightarrow> s \<noteq> [])"

text \<open>
  The code units that \<^verbatim>\<open>\s\<close> matches and that \<^verbatim>\<open>trim\<close>, \<^verbatim>\<open>trimEnd\<close> remove
  (ECMAScript WhiteSpace and LineTerminator): TAB, LF, VT, FF, CR, SP, NBSP, U+1680,
  U+2000 to U+200A, U+2028, U+2029, U+202F, U+205F, U+3000 and U+FEFF.
\<close>

definition isWhiteSpace :: "jschar \<Rightarrow> bool" where
  "isWhiteSpace c =
     ((0x09 \<le> c \<and> c \<le> 0x0D) \<or> c = 0x20 \<or> c = 0xA0 \<or> c = 0x1680 \<or>
      (0x2000 \<le> c \<and> c \<le> 0x200A) \<or> c = 0x2028 \<or> c = 0x2029 \<or> c = 0x202F \<or>
      c = 0x205F \<or> c = 0x3000 \<or> c = 0xFEFF)"

definition trimStart :: "jsstring \<Rightarrow> jsstring" where
  "trimStart s = dropWhile isWhiteSpace s"

definition trimEnd :: "jsstring \<Rightarrow> jsstring" where
  "trimEnd s = rev (dropWhile isWhiteSpace (rev s))"

definition trim :: "jsstring \<Rightarrow> jsstring" where
  "trim s = trimEnd (trimStart s)"

text \<open>
  \<^verbatim>\<open>s.slice(start, end)\<close>: a negative index counts from the end, both are clamped to
  the string, and an empty range gives the empty string.
\<close>

definition sliceString :: "jsstring \<Rightarrow> int \<Rightarrow> int \<Rightarrow> jsstring" where
  "sliceString s start end =
     (let len = int (length s);
          from = (if start < 0 then max (len + start) 0 else min start len);
          to = (if end < 0 then max (len + end) 0 else min end len)
      in take (nat (to - from)) (drop (nat from) s))"

text \<open>
  \<^verbatim>\<open>s.substring(start, end)\<close>: both indices are clamped to the string and swapped
  when the first is the larger.
\<close>

definition substring :: "jsstring \<Rightarrow> int \<Rightarrow> int \<Rightarrow> jsstring" where
  "substring s start end =
     (let len = int (length s);
          a = min (max start 0) len;
          b = min (max end 0) len;
          from = min a b;
          to = max a b
      in take (nat (to - from)) (drop (nat from) s))"

text \<open>
  \<^verbatim>\<open>s.contains(q)\<close>, which the host adds to strings (\<^verbatim>\<open>includes\<close>): \<open>q\<close> occurs in
  \<open>s\<close> at some position.
\<close>

fun contains :: "jsstring \<Rightarrow> jsstring \<Rightarrow> bool" where
  "contains [] q = (q = [])"
| "contains (c # cs) q = (take (length q) (c # cs) = q \<or> contains cs q)"

text \<open>
  \<^verbatim>\<open>.replace(/[\s_]+/g, "-")\<close>: scanning from the left, each longest run of white
  space and underscores becomes one hyphen.
\<close>

definition isSeparator :: "jschar \<Rightarrow> bool" where
  "isSeparator c = (isWhiteSpace c \<or> c = 0x5F)"

function replaceSeparatorRuns :: "jsstring \<Rightarrow> jsstring" where
  "replaceSeparatorRuns [] = []"
| "replaceSeparatorRuns (c # cs) =
     (if isSeparator c then 0x2D # replaceSeparatorRuns (dropWhile isSeparator cs)
      else c # replaceSeparatorRuns cs)"
  by pat_completeness auto
termination
  by (relation "measure length") (auto simp: length_dropWhile_le le_imp_less_Suc)

text \<open>
  \<^verbatim>\<open>.replace(/[^a-zA-Z0-9-]/g, "")\<close>: every code unit outside the class is dropped.
\<close>

definition isIdChar :: "jschar \<Rightarrow> bool" where
  "isIdChar c =
     ((0x61 \<le> c \<and> c \<le> 0x7A) \<or> (0x41 \<le> c \<and> c \<le> 0x5A) \<or>
      (0x30 \<le> c \<and> c \<le> 0x39) \<or> c = 0x2D)"

fun removeOtherChars :: "jsstring \<Rightarrow> jsstring" where
  "removeOtherChars [] = []"
| "removeOtherChars (c # cs) =
     (if isIdChar c then c # removeOtherChars cs else removeOtherChars cs)"

text \<open>
  \<^verbatim>\<open>.replace(/\\n/g, "\n")\<close> of the settings tab: each backslash followed by
  \<^verbatim>\<open>n\<close> becomes a line feed.
\<close>

fun unescapeNewlines :: "jsstring \<Rightarrow> jsstring" where
  "unescapeNewlines (a # b # cs) =
     (if a = 0x5C \<and> b = 0x6E then 0x0A # unescapeNewlines cs
      else a # unescapeNewlines (b # cs))"
| "unescapeNewlines cs = cs"

section \<open>Data model\<close>

text \<open>
  \<^verbatim>\<open>TFile\<close> is the host's handle of a file; the plugin reads its \<^verbatim>\<open>path\<close> and its
  \<^verbatim>\<open>basename\<close> (the file name without directory and extension).
\<close>

record TFile =
  path :: jsstring
  basename :: jsstring

record CharacterPool =
  name :: jsstring
  charNotes :: "jsstring list"
  isEnabled :: bool

record WriterAssistSettings =
  sectionNotes :: "jsstring list"
  sectionSeparator :: jsstring
  characterPools :: "CharacterPool list"

definition DEFAULT_SETTINGS :: WriterAssistSettings where
  "DEFAULT_SETTINGS =
     \<lparr>sectionNotes = [str ''Test Note''],
      sectionSeparator = [0x0A, 0x0A] @ str ''---'' @ [0x0A],
      characterPools =
        [\<lparr>name = str ''Test Pool'', charNotes = [str ''Test Note''], isEnabled = True\<rparr>]\<rparr>"

record EditorPosition =
  line :: int
  ch :: int

text \<open>
  The vault is the host's file index: the notes \<^verbatim>\<open>getMarkdownFiles()\<close> lists, what
  \<^verbatim>\<open>getFileByPath\<close> answers and, by path, the content of each file.
\<close>

record Vault =
  getMarkdownFiles :: "TFile list"
  getFileByPath :: "jsstring \<Rightarrow> TFile option"
  contents :: "jsstring \<Rightarrow> jsstring option"

text \<open>
  \<^verbatim>\<open>vault.process(file, fn)\<close>: the host replaces the content of the file by
  \<open>fn\<close> of it; a file without content in the vault is left alone.
\<close>

definition process :: "Vault \<Rightarrow> TFile \<Rightarrow> (jsstring \<Rightarrow> jsstring) \<Rightarrow> Vault" where
  "process vault file fn =
     (case contents vault (path file) of
        None \<Rightarrow> vault
      | Some content \<Rightarrow> vault\<lparr>contents := (contents vault)(path file \<mapsto> fn content)\<rparr>)"

section \<open>Path shortener, section IDs, character pools\<close>

text \<open>
  \<^verbatim>\<open>shortenNotePath\<close> (lines 231 to 245). The loop counts the notes with the base
  name of \<open>note\<close> and returns from inside as soon as the count exceeds one.
\<close>

fun shortenLoop :: "TFile \<Rightarrow> TFile list \<Rightarrow> nat \<Rightarrow> jsstring" where
  "shortenLoop note [] count = basename note"
| "shortenLoop note (f # allNotes) count =
     (let count' = (if basename f = basename note then count + 1 else count)
      in if count' > 1 then sliceString (path note) 0 (- 3)
         else shortenLoop note allNotes count')"

definition shortenNotePath :: "TFile \<Rightarrow> Vault \<Rightarrow> jsstring" where
  "shortenNotePath note vault = shortenLoop note (getMarkdownFiles vault) 0"

text \<open>
  \<^verbatim>\<open>randomSectionId\<close> (lines 247 to 249) is
  \<^verbatim>\<open>Math.random().toString(36).substring(2, 8)\<close>. The random number and its
  rendering in base 36 are the runtime's; the model takes the rendering \<open>r\<close> as input.
  For a number in the interval from 0 to 1 it is \<^verbatim>\<open>0\<close>, or \<^verbatim>\<open>0.\<close> followed by
  one or more digits out of \<^verbatim>\<open>0-9a-z\<close>.
\<close>

definition isBase36Digit :: "jschar \<Rightarrow> bool" where
  "isBase36Digit c = ((0x30 \<le> c \<and> c \<le> 0x39) \<or> (0x61 \<le> c \<and> c \<le> 0x7A))"

definition isRandomRendering :: "jsstring \<Rightarrow> bool" where
  "isRandomRendering r =
     (r = str ''0'' \<or>
      (take 2 r = str ''0.'' \<and> drop 2 r \<noteq> [] \<and> list_all isBase36Digit (drop 2 r)))"

definition randomSectionId :: "jsstring \<Rightarrow> jsstring" where
  "randomSectionId r = substring r 2 8"

text \<open>
  The value of base-36 digits read as a whole number, to say which fraction a rendering
  stands for: the digits \<open>ds\<close> after the point denote \<open>digitsValue ds / 36 ^ length ds\<close>.
\<close>

definition digitValue :: "jschar \<Rightarrow> nat" where
  "digitValue c = (if c \<le> 0x39 then unat c - 0x30 else unat c - 0x61 + 10)"

definition digitsValue :: "jsstring \<Rightarrow> nat" where
  "digitsValue ds = foldl (\<lambda>v c. 36 * v + digitValue c) 0 ds"

text \<open>
  Normalisation of a typed section ID (lines 142 to 146), and the choice between the
  typed and the random ID (lines 141 to 149).
\<close>

definition normalizeSectionId :: "jsstring \<Rightarrow> jsstring" where
  "normalizeSectionId s = removeOtherChars (replaceSeparatorRuns (trim s))"

definition chooseSectionId :: "jsstring option \<Rightarrow> jsstring \<Rightarrow> jsstring" where
  "chooseSectionId typed r =
     (let sectionId = (if truthy typed then map_option normalizeSectionId typed else typed)
      in case sectionId of
           None \<Rightarrow> randomSectionId r
         | Some s \<Rightarrow> if s = [] then randomSectionId r else s)"

text \<open>
  \<^verbatim>\<open>getActiveCharNotes\<close> (lines 259 to 285). The first loop adds up the sizes of the
  enabled pools; the result array is allocated with that many empty slots
  (\<open>None\<close> is a slot never written) and filled by index. Writing at or past the end
  of an array extends it.
\<close>

fun countActive :: "CharacterPool list \<Rightarrow> nat \<Rightarrow> nat" where
  "countActive [] activeCharCount = activeCharCount"
| "countActive (pool # pools) activeCharCount =
     countActive pools
       (if isEnabled pool then activeCharCount + length (charNotes pool)
        else activeCharCount)"

definition setIndex :: "'a option list \<Rightarrow> nat \<Rightarrow> 'a \<Rightarrow> 'a option list" where
  "setIndex arr i v =
     (if i < length arr then arr[i := Some v]
      else arr @ replicate (i - length arr) None @ [Some v])"

fun fillFromPool ::
  "jsstring option list \<Rightarrow> nat \<Rightarrow> jsstring list \<Rightarrow> jsstring option list \<times> nat" where
  "fillFromPool activeCharNotes index [] = (activeCharNotes, index)"
| "fillFromPool activeCharNotes index (charNote # rest) =
     fillFromPool (setIndex activeCharNotes index charNote) (index + 1) rest"

fun fillFromPools ::
  "jsstring option list \<Rightarrow> nat \<Rightarrow> CharacterPool list \<Rightarrow> jsstring option list" where
  "fillFromPools activeCharNotes index [] = activeCharNotes"
| "fillFromPools activeCharNotes index (pool # pools) =
     (if isEnabled pool then
        (case fillFromPool activeCharNotes index (charNotes pool) of
           (activeCharNotes', index') \<Rightarrow> fillFromPools activeCharNotes' index' pools)
      else fillFromPools activeCharNotes index pools)"

definition getActiveCharNotes :: "CharacterPool list \<Rightarrow> jsstring option list" where
  "getActiveCharNotes pools =
     (let activeCharCount = countActive pools 0
      in if activeCharCount = 0 then []
         else fillFromPools (replicate activeCharCount None) 0 pools)"

section \<open>Selection prompts\<close>

text \<open>
  \<^verbatim>\<open>getSuggestions\<close> of \<^verbatim>\<open>TextSuggestModal\<close> (lines 659 to 669) and of
  \<^verbatim>\<open>NoteSuggestModal\<close> (lines 684 to 694). \<^verbatim>\<open>toLowerCase\<close> follows the Unicode
  case tables of the runtime, which are not part of the repository: the model takes the
  function as the parameter \<open>toLowerCase\<close>.
\<close>

function textSuggestLoop ::
  "(jsstring \<Rightarrow> jsstring) \<Rightarrow> jsstring list \<Rightarrow> jsstring \<Rightarrow> nat \<Rightarrow> jsstring list \<Rightarrow> jsstring list" where
  "textSuggestLoop toLowerCase suggestions query i filtered =
     (if i < min (length suggestions) 1000 then
        textSuggestLoop toLowerCase suggestions query (i + 1)
          (if contains (toLowerCase (suggestions ! i)) query
           then filtered @ [suggestions ! i] else filtered)
      else filtered)"
  by pat_completeness auto
termination
  by (relation "measure (\<lambda>(l, suggestions, q, i, f). min (length suggestions) 1000 - i)") auto

definition textGetSuggestions ::
  "(jsstring \<Rightarrow> jsstring) \<Rightarrow> jsstring list \<Rightarrow> jsstring \<Rightarrow> jsstring list" where
  "textGetSuggestions toLowerCase suggestions query =
     textSuggestLoop toLowerCase suggestions (toLowerCase query) 0 []"

function noteSuggestLoop ::
  "(jsstring \<Rightarrow> jsstring) \<Rightarrow> TFile list \<Rightarrow> jsstring \<Rightarrow> nat \<Rightarrow> TFile list \<Rightarrow> TFile list" where
  "noteSuggestLoop toLowerCase suggestions query i filtered =
     (if i < min (length suggestions) 1000 then
        noteSuggestLoop toLowerCase suggestions query (i + 1)
          (if contains (toLowerCase (path (suggestions ! i))) query
           then filtered @ [suggestions ! i] else filtered)
      else filtered)"
  by pat_completeness auto
termination
  by (relation "measure (\<lambda>(l, suggestions, q, i, f). min (length suggestions) 1000 - i)") auto

definition noteGetSuggestions ::
  "(jsstring \<Rightarrow> jsstring) \<Rightarrow> TFile list \<Rightarrow> jsstring \<Rightarrow> TFile list" where
  "noteGetSuggestions toLowerCase suggestions query =
     noteSuggestLoop toLowerCase suggestions (toLowerCase query) 0 []"

text \<open>Lower case on the ASCII letters, for concrete runs of the filters.\<close>

definition asciiLower :: "jsstring \<Rightarrow> jsstring" where
  "asciiLower s = map (\<lambda>c. if 0x41 \<le> c \<and> c \<le> 0x5A then c + 0x20 else c) s"

section \<open>The host: editor, prompts, notices\<close>

text \<open>
  Editor, modal dialogs and notices belong to the host. The model records, in order,
  the calls a handler makes on them, and takes as input what the host and the user
  answer: the selected text and the cursor of the editor (before the command, and
  after its insertion), and the value each prompt resolves with (\<open>None\<close> when it
  resolves with no value).
\<close>

datatype call =
    Notice jsstring
  | TextSuggestModal "jsstring option list" jsstring
  | NoteSuggestModal jsstring
  | PromptModal jsstring jsstring
  | ConfirmModal jsstring jsstring
  | ReplaceRange jsstring EditorPosition
  | ReplaceSelection jsstring
  | Focus
  | SetCursor EditorPosition
  | SetSelection EditorPosition EditorPosition
  | SaveData
  | Display

fun isEditorCall :: "call \<Rightarrow> bool" where
  "isEditorCall (ReplaceRange text pos) = True"
| "isEditorCall (ReplaceSelection text) = True"
| "isEditorCall Focus = True"
| "isEditorCall (SetCursor pos) = True"
| "isEditorCall (SetSelection anchor head) = True"
| "isEditorCall c = False"

record Editor =
  getSelection :: jsstring
  getCursor :: EditorPosition
  cursorAfter :: EditorPosition

record Plugin =
  settings :: WriterAssistSettings
  appVault :: Vault
  calls :: "call list"

definition emit :: "Plugin \<Rightarrow> call list \<Rightarrow> Plugin" where
  "emit plugin cs = plugin\<lparr>calls := calls plugin @ cs\<rparr>"

definition defaultPlaceholder :: jsstring where
  "defaultPlaceholder = str ''Type response here...''"

section \<open>Command handlers\<close>

text \<open>\<^verbatim>\<open>promptForAlias\<close> (lines 194 to 200); \<open>typed\<close> is what the prompt resolves with.\<close>

definition promptForAlias :: "TFile \<Rightarrow> jsstring option \<Rightarrow> call list \<times> jsstring option" where
  "promptForAlias charNote typed =
     ([PromptModal (str ''Enter character alias (leave blank for note name):'')
         (basename charNote)], typed)"

text \<open>
  \<^verbatim>\<open>promptForCharacter\<close> (lines 202 to 229); \<open>selectedCharNote\<close> is what the
  selection prompt resolves with, if it is opened.
\<close>

definition promptForCharacter ::
  "CharacterPool list \<Rightarrow> Vault \<Rightarrow> jsstring option \<Rightarrow> call list \<times> TFile option" where
  "promptForCharacter pools vault selectedCharNote =
     (let activeCharNotes = getActiveCharNotes pools
      in if length activeCharNotes = 0
         then ([Notice (str ''No active characters to reference.'')], None)
         else
           (let opened = [TextSuggestModal activeCharNotes (str ''Which character to reference?'')]
            in case selectedCharNote of
                 None \<Rightarrow> (opened @ [Notice (str ''No character selected.'')], None)
               | Some selected \<Rightarrow>
                   if selected = []
                   then (opened @ [Notice (str ''No character selected.'')], None)
                   else
                     (case getFileByPath vault selected of
                        None \<Rightarrow> (opened @ [Notice (str ''Note not found.'')], None)
                      | Some targetNote \<Rightarrow> (opened, Some targetNote))))"

text \<open>\<^verbatim>\<open>addDramaticEllipsis\<close> (lines 54 to 64); U+2026 is the ellipsis.\<close>

definition addDramaticEllipsis :: "Plugin \<Rightarrow> Editor \<Rightarrow> Plugin" where
  "addDramaticEllipsis plugin editor =
     (let html = str ''<span class='' @ [0x22] @ str ''center-align'' @ [0x22] @ str ''>('' @
                 [0x2026] @ str '')</span>'';
          editorPos = cursorAfter editor
      in emit plugin
           [ReplaceRange html (getCursor editor), Focus,
            SetCursor \<lparr>line = line editorPos, ch = ch editorPos + int (length html)\<rparr>])"

text \<open>
  \<^verbatim>\<open>addCharacterDiag\<close> (lines 66 to 87); U+201C and U+201D are the typographic
  quotes of the empty dialogue line.
\<close>

definition addCharacterDiag ::
  "Plugin \<Rightarrow> Editor \<Rightarrow> jsstring option \<Rightarrow> jsstring option \<Rightarrow> Plugin" where
  "addCharacterDiag plugin editor selectedCharNote typed =
     (case promptForCharacter (characterPools (settings plugin)) (appVault plugin) selectedCharNote of
        (cs, None) \<Rightarrow> emit plugin cs
      | (cs, Some targetNote) \<Rightarrow>
          (case promptForAlias targetNote typed of
             (cs', alias) \<Rightarrow>
               (let shortNotePath = shortenNotePath targetNote (appVault plugin);
                    link = (case alias of
                              None \<Rightarrow> str ''[['' @ shortNotePath @ str '']]''
                            | Some a \<Rightarrow>
                                if a = [] then str ''[['' @ shortNotePath @ str '']]''
                                else str ''[['' @ shortNotePath @ str ''|'' @ a @ str '']]'');
                    editorPos = cursorAfter editor
                in emit plugin
                     (cs @ cs' @
                      [ReplaceRange
                         (str ''> <span class='' @ [0x22] @ str ''left-align'' @ [0x22] @ str ''>'' @
                          link @ str ''</span>'' @ [0x0A] @ str ''> '' @ [0x201C, 0x201D])
                         (getCursor editor),
                       Focus,
                       SetCursor \<lparr>line = line editorPos + 1, ch = ch editorPos - 1\<rparr>]))))"

text \<open>\<^verbatim>\<open>addCharacterReference\<close> (lines 89 to 105).\<close>

definition addCharacterReference ::
  "Plugin \<Rightarrow> Editor \<Rightarrow> jsstring option \<Rightarrow> jsstring option \<Rightarrow> Plugin" where
  "addCharacterReference plugin editor selectedCharNote typed =
     (case promptForCharacter (characterPools (settings plugin)) (appVault plugin) selectedCharNote of
        (cs, None) \<Rightarrow> emit plugin cs
      | (cs, Some targetNote) \<Rightarrow>
          (case promptForAlias targetNote typed of
             (cs', alias) \<Rightarrow>
               (let shortNotePath = shortenNotePath targetNote (appVault plugin)
                in emit plugin
                     (cs @ cs' @
                      [ReplaceSelection
                         (case alias of
                            None \<Rightarrow> str ''[['' @ shortNotePath @ str '']]''
                          | Some a \<Rightarrow>
                              if a = [] then str ''[['' @ shortNotePath @ str '']]''
                              else str ''[['' @ shortNotePath @ str ''|'' @ a @ str '']]''),
                       Focus]))))"

text \<open>
  The function handed to \<^verbatim>\<open>vault.process\<close> (lines 170 to 178). \<open>viewFile\<close> is
  \<^verbatim>\<open>view.file\<close>, the file of the open document, if it has one; the host keeps one
  handle per file, so that comparing handles is comparing files.
\<close>

definition appendSection ::
  "TFile \<Rightarrow> TFile option \<Rightarrow> jsstring \<Rightarrow> jsstring \<Rightarrow> jsstring \<Rightarrow> jsstring \<Rightarrow> jsstring" where
  "appendSection targetNote viewFile separator selection sectionId content =
     (let content' = (if Some targetNote \<noteq> viewFile then trimEnd content else content)
      in if content' = [] then selection @ str '' ^'' @ sectionId @ [0x0A]
         else content' @ separator @ selection @ str '' ^'' @ sectionId @ [0x0A])"

text \<open>
  \<^verbatim>\<open>addSectionWikilink\<close> (lines 107 to 179). \<open>insertSectionWikilink\<close> is the handler
  from line 131 on, where the first prompt has been answered; \<open>typed\<close> is what the
  section-ID prompt resolves with and \<open>r\<close> the rendering the random ID is cut from.
\<close>

definition insertSectionWikilink ::
  "Plugin \<Rightarrow> Editor \<Rightarrow> TFile option \<Rightarrow> TFile option \<Rightarrow> jsstring option \<Rightarrow> jsstring \<Rightarrow> Plugin" where
  "insertSectionWikilink plugin editor viewFile targetNote typed r =
     (case targetNote of
        None \<Rightarrow> emit plugin [Notice (str ''Note not found.'')]
      | Some target \<Rightarrow>
          (let sectionId = chooseSectionId typed r;
               selection = (if getSelection editor = [] then str ''Replace this''
                            else getSelection editor);
               shortNotePath = shortenNotePath target (appVault plugin);
               link = str ''[['' @ shortNotePath @ str ''#^'' @ sectionId @ str ''|'' @
                      selection @ str '']]'';
               editorPos = cursorAfter editor
           in (emit plugin
                 [PromptModal (str ''Enter section ID (leave blank for random):'')
                    defaultPlaceholder,
                  ReplaceSelection link,
                  Focus,
                  SetSelection
                    \<lparr>line = line editorPos, ch = ch editorPos - int (length selection) - 2\<rparr>
                    \<lparr>line = line editorPos, ch = ch editorPos - 2\<rparr>])
              \<lparr>appVault :=
                 process (appVault plugin) target
                   (appendSection target viewFile (sectionSeparator (settings plugin))
                      selection sectionId)\<rparr>))"

definition addSectionWikilink ::
  "Plugin \<Rightarrow> Editor \<Rightarrow> TFile option \<Rightarrow> TFile option \<Rightarrow> jsstring option \<Rightarrow>
   jsstring option \<Rightarrow> jsstring \<Rightarrow> Plugin" where
  "addSectionWikilink plugin editor viewFile pickedNote selectedNote typed r =
     (if length (sectionNotes (settings plugin)) = 0 then
        insertSectionWikilink (emit plugin [NoteSuggestModal (str ''Append to which note?'')])
          editor viewFile pickedNote typed r
      else
        (let opened = [TextSuggestModal (map Some (sectionNotes (settings plugin)))
                         (str ''Append to which note?'')]
         in case selectedNote of
              None \<Rightarrow> emit plugin (opened @ [Notice (str ''No note selected.'')])
            | Some selected \<Rightarrow>
                if selected = []
                then emit plugin (opened @ [Notice (str ''No note selected.'')])
                else insertSectionWikilink (emit plugin opened) editor viewFile
                       (getFileByPath (appVault plugin) selected) typed r))"

section \<open>Settings\<close>

text \<open>
  \<^verbatim>\<open>loadSettings\<close> (lines 185 to 187): the stored object, when there is one, is laid
  over the defaults. What is stored is what \<^verbatim>\<open>saveSettings\<close> wrote, the whole
  settings object.
\<close>

definition loadSettings :: "WriterAssistSettings option \<Rightarrow> WriterAssistSettings" where
  "loadSettings stored = (case stored of None \<Rightarrow> DEFAULT_SETTINGS | Some s \<Rightarrow> s)"

text \<open>\<^verbatim>\<open>xs.splice(i, 1)\<close>: the element at index \<open>i\<close> is removed, if there is one.\<close>

definition splice1 :: "'a list \<Rightarrow> nat \<Rightarrow> 'a list" where
  "splice1 xs i = take i xs @ drop (i + 1) xs"

text \<open>
  The handlers of the settings tab (lines 423 to 612). Each button is built for one
  pool, character or note of the list as displayed; \<open>i\<close> and \<open>j\<close> are the indices its
  closure has captured. A button of an index outside the list does not exist, and its
  handler leaves the plugin as it is.
\<close>

definition setPools :: "Plugin \<Rightarrow> CharacterPool list \<Rightarrow> Plugin" where
  "setPools plugin pools = plugin\<lparr>settings := (settings plugin)\<lparr>characterPools := pools\<rparr>\<rparr>"

definition onAddPool :: "Plugin \<Rightarrow> jsstring option \<Rightarrow> Plugin" where
  "onAddPool plugin typed =
     (let opened = [PromptModal (str ''Enter pool name:'') defaultPlaceholder]
      in case typed of
           None \<Rightarrow> emit plugin opened
         | Some poolName \<Rightarrow>
             if poolName = [] then emit plugin opened
             else emit
                    (setPools plugin
                       (characterPools (settings plugin) @
                        [\<lparr>name = poolName, charNotes = [], isEnabled = True\<rparr>]))
                    (opened @ [SaveData, Display]))"

definition onEditPool :: "Plugin \<Rightarrow> nat \<Rightarrow> jsstring option \<Rightarrow> Plugin" where
  "onEditPool plugin i typed =
     (let pools = characterPools (settings plugin)
      in if i < length pools then
           (let pool = pools ! i;
                opened = [PromptModal (str ''Enter the new pool name:'') (name pool)]
            in case typed of
                 None \<Rightarrow> emit plugin opened
               | Some newName \<Rightarrow>
                   if newName = [] then emit plugin opened
                   else emit (setPools plugin (pools[i := pool\<lparr>name := newName\<rparr>]))
                          (opened @ [SaveData, Display]))
         else plugin)"

definition onAddCharacter :: "Plugin \<Rightarrow> nat \<Rightarrow> TFile option \<Rightarrow> Plugin" where
  "onAddCharacter plugin i picked =
     (let pools = characterPools (settings plugin)
      in if i < length pools then
           (let pool = pools ! i;
                opened = [NoteSuggestModal (str ''Search for a character's note...'')]
            in case picked of
                 None \<Rightarrow> emit plugin opened
               | Some charNote \<Rightarrow>
                   emit (setPools plugin
                           (pools[i := pool\<lparr>charNotes := charNotes pool @ [path charNote]\<rparr>]))
                     (opened @ [SaveData, Display]))
         else plugin)"

definition onRemovePool :: "Plugin \<Rightarrow> nat \<Rightarrow> bool \<Rightarrow> Plugin" where
  "onRemovePool plugin i response =
     (let pools = characterPools (settings plugin)
      in if i < length pools then
           (let pool = pools ! i;
                opened = [ConfirmModal (str ''Remove Pool'')
                            (str ''Are you sure you want to remove the pool '' @ [0x22] @
                             name pool @ [0x22] @ str ''?'')]
            in if \<not> response then emit plugin opened
               else emit (setPools plugin (splice1 pools i)) (opened @ [SaveData, Display]))
         else plugin)"

definition onTogglePool :: "Plugin \<Rightarrow> nat \<Rightarrow> bool \<Rightarrow> Plugin" where
  "onTogglePool plugin i v =
     (let pools = characterPools (settings plugin)
      in if i < length pools then
           emit (setPools plugin (pools[i := (pools ! i)\<lparr>isEnabled := v\<rparr>])) [SaveData]
         else plugin)"

definition onRemoveCharacter :: "Plugin \<Rightarrow> nat \<Rightarrow> nat \<Rightarrow> Plugin" where
  "onRemoveCharacter plugin i j =
     (let pools = characterPools (settings plugin)
      in if i < length pools \<and> j < length (charNotes (pools ! i)) then
           emit (setPools plugin
                   (pools[i := (pools ! i)\<lparr>charNotes := splice1 (charNotes (pools ! i)) j\<rparr>]))
             [SaveData, Display]
         else plugin)"

definition onChangeSeparator :: "Plugin \<Rightarrow> jsstring \<Rightarrow> Plugin" where
  "onChangeSeparator plugin v =
     emit (plugin\<lparr>settings := (settings plugin)\<lparr>sectionSeparator := unescapeNewlines v\<rparr>\<rparr>)
       [SaveData]"

text \<open>The \<^verbatim>\<open>Add Note\<close> button of the section notes (lines 576 to 593).\<close>

definition onAddSectionNote :: "Plugin \<Rightarrow> TFile option \<Rightarrow> Plugin" where
  "onAddSectionNote plugin picked =
     (let opened = [NoteSuggestModal (str ''Type to search for a note...'')]
      in case picked of
           None \<Rightarrow> emit plugin opened
         | Some note \<Rightarrow>
             if path note \<in> set (sectionNotes (settings plugin))
             then emit plugin (opened @ [Notice (str ''Note already added.'')])
             else emit
                    (plugin\<lparr>settings := (settings plugin)
                       \<lparr>sectionNotes := sectionNotes (settings plugin) @ [path note]\<rparr>\<rparr>)
                    (opened @
                     [Notice (str ''Selected note: '' @ [0x22] @ path note @ [0x22] @ str ''.''),
                      SaveData, Display]))"

definition onRemoveSectionNote :: "Plugin \<Rightarrow> nat \<Rightarrow> Plugin" where
  "onRemoveSectionNote plugin i =
     (if i < length (sectionNotes (settings plugin)) then
        emit (plugin\<lparr>settings := (settings plugin)
                \<lparr>sectionNotes := splice1 (sectionNotes (settings plugin)) i\<rparr>\<rparr>)
          [SaveData, Display]
      else plugin)"

text \<open>
  The states a session can be in: the plugin loads its settings (nothing stored, or
  what an earlier session saved), and then commands and settings handlers run one
  after the other, each with whatever the user answers; between them the vault may
  change.
\<close>

inductive reachable :: "Plugin \<Rightarrow> bool" where
  onload: "reachable \<lparr>settings = loadSettings None, appVault = v, calls = []\<rparr>"
| reload: "reachable p \<Longrightarrow>
     reachable \<lparr>settings = loadSettings (Some (settings p)), appVault = v, calls = []\<rparr>"
| vaultChanged: "reachable p \<Longrightarrow> reachable (p\<lparr>appVault := v\<rparr>)"
| dramaticEllipsis: "reachable p \<Longrightarrow> reachable (addDramaticEllipsis p editor)"
| characterDiag: "reachable p \<Longrightarrow> reachable (addCharacterDiag p editor selected typed)"
| characterReference: "reachable p \<Longrightarrow>
     reachable (addCharacterReference p editor selected typed)"
| sectionWikilink: "reachable p \<Longrightarrow>
     reachable (addSectionWikilink p editor viewFile picked selected typed r)"
| addPool: "reachable p \<Longrightarrow> reachable (onAddPool p typed)"
| editPool: "reachable p \<Longrightarrow> reachable (onEditPool p i typed)"
| addCharacter: "reachable p \<Longrightarrow> reachable (onAddCharacter p i picked)"
| removePool: "reachable p \<Longrightarrow> reachable (onRemovePool p i response)"
| togglePool: "reachable p \<Longrightarrow> reachable (onTogglePool p i b)"
| removeCharacter: "reachable p \<Longrightarrow> reachable (onRemoveCharacter p i j)"
| changeSeparator: "reachable p \<Longrightarrow> reachable (onChangeSeparator p s)"
| addSectionNote: "reachable p \<Longrightarrow> reachable (onAddSectionNote p picked)"
| removeSectionNote: "reachable p \<Longrightarrow> reachable (onRemoveSectionNote p i)"

text \<open>
  A handler has left document, vault and settings alone when settings and vault are
  what they were and the calls it added touch no editor.
\<close>

definition untouched :: "Plugin \<Rightarrow> Plugin \<Rightarrow> bool" where
  "untouched before after =
     (settings after = settings before \<and> appVault after = appVault before \<and>
      take (length (calls before)) (calls after) = calls before \<and>
      list_all (\<lambda>c. \<not> isEditorCall c) (drop (length (calls before)) (calls after)))"

text \<open>The text a handler has put into the document, insertion by insertion.\<close>

fun insertedText :: "call \<Rightarrow> jsstring list" where
  "insertedText (ReplaceRange text pos) = [text]"
| "insertedText (ReplaceSelection text) = [text]"
| "insertedText c = []"

definition insertions :: "Plugin \<Rightarrow> jsstring list" where
  "insertions plugin = concat (map insertedText (calls plugin))"

section \<open>A small vault, for concrete runs\<close>

definition bobNote :: TFile where
  "bobNote = \<lparr>path = str ''cast/Bob.md'', basename = str ''Bob''\<rparr>"

definition draftNote :: TFile where
  "draftNote = \<lparr>path = str ''Draft.md'', basename = str ''Draft''\<rparr>"

definition exampleVault :: Vault where
  "exampleVault =
     \<lparr>getMarkdownFiles = [bobNote, draftNote],
      getFileByPath =
        (\<lambda>p. if p = path bobNote then Some bobNote
             else if p = path draftNote then Some draftNote else None),
      contents =
        (\<lambda>p. if p = path bobNote then Some (str ''Bob builds.'' @ [0x0A])
             else if p = path draftNote then Some [] else None)\<rparr>"

definition examplePlugin :: Plugin where
  "examplePlugin =
     \<lparr>settings =
        \<lparr>sectionNotes = [path bobNote],
         sectionSeparator = [0x0A, 0x0A] @ str ''---'' @ [0x0A],
         characterPools =
           [\<lparr>name = str ''Cast'', charNotes = [path bobNote], isEnabled = True\<rparr>]\<rparr>,
      appVault = exampleVault,
      calls = []\<rparr>"

definition exampleEditor :: Editor where
  "exampleEditor =
     \<lparr>getSelection = str ''the bridge'',
      getCursor = \<lparr>line = 3, ch = 10\<rparr>,
      cursorAfter = \<lparr>line = 3, ch = 40\<rparr>\<rparr>"

text \<open>
  A vault for the default settings, whose section note is the path \<^verbatim>\<open>Test Note\<close>:
  a file of that path, which has no extension, and two Markdown notes of the same base
  name in two folders.
\<close>

definition testNote :: TFile where
  "testNote = \<lparr>path = str ''Test Note'', basename = str ''Test Note''\<rparr>"

definition testVault :: Vault where
  "testVault =
     \<lparr>getMarkdownFiles =
        [\<lparr>path = str ''a/Test Note.md'', basename = str ''Test Note''\<rparr>,
         \<lparr>path = str ''b/Test Note.md'', basename = str ''Test Note''\<rparr>],
      getFileByPath = (\<lambda>p. if p = path testNote then Some testNote else None),
      contents = (\<lambda>p. if p = path testNote then Some [] else None)\<rparr>"

declare textSuggestLoop.simps [simp del] noteSuggestLoop.simps [simp del]

section \<open>Facts about the string operations\<close>

lemma removeOtherChars_filter: "removeOtherChars s = filter isIdChar s"
  by (induction s) auto

lemma trimEnd_append:
  "list_all isWhiteSpace ws \<Longrightarrow> body = [] \<or> \<not> isWhiteSpace (last body) \<Longrightarrow>
   trimEnd (body @ ws) = body"
proof -
  assume ws: "list_all isWhiteSpace ws" and b: "body = [] \<or> \<not> isWhiteSpace (last body)"
  have "dropWhile isWhiteSpace (rev ws @ rev body) = dropWhile isWhiteSpace (rev body)"
    using ws by (intro dropWhile_append2) (simp add: list_all_iff)
  also have "\<dots> = rev body"
    using b by (cases "rev body") (auto simp: last_rev [symmetric] simp del: last_rev)
  finally show ?thesis by (simp add: trimEnd_def)
qed

lemma trimStart_append:
  "list_all isWhiteSpace ws \<Longrightarrow> body = [] \<or> \<not> isWhiteSpace (hd body) \<Longrightarrow>
   trimStart (ws @ body) = body"
proof -
  assume ws: "list_all isWhiteSpace ws" and b: "body = [] \<or> \<not> isWhiteSpace (hd body)"
  have "dropWhile isWhiteSpace (ws @ body) = dropWhile isWhiteSpace body"
    using ws by (intro dropWhile_append2) (simp add: list_all_iff)
  also have "\<dots> = body"
    using b by (cases body) auto
  finally show ?thesis by (simp add: trimStart_def)
qed

lemma trim_append:
  assumes "list_all isWhiteSpace ws1" "list_all isWhiteSpace ws2"
    and "body = [] \<or> (\<not> isWhiteSpace (hd body) \<and> \<not> isWhiteSpace (last body))"
  shows "trim (ws1 @ body @ ws2) = body"
proof (cases "body = []")
  case True
  with assms show ?thesis
    using trimStart_append [of "ws1 @ ws2" "[]"] by (simp add: trim_def trimEnd_def)
next
  case False
  with assms have h: "\<not> isWhiteSpace (hd (body @ ws2))" and l: "\<not> isWhiteSpace (last body)"
    by auto
  have "trimStart (ws1 @ body @ ws2) = body @ ws2"
    using assms(1) h by (intro trimStart_append) auto
  then show ?thesis
    using trimEnd_append [OF assms(2), of body] l by (simp add: trim_def)
qed

text \<open>A string without white space and underscores passes the first replacement as it is.\<close>

lemma replaceSeparatorRuns_id:
  "list_all (\<lambda>c. \<not> isSeparator c) xs \<Longrightarrow> replaceSeparatorRuns xs = xs"
  by (induction xs) auto

text \<open>A run at the head of the string, closed by the end or by another character.\<close>

lemma replaceSeparatorRuns_run:
  assumes "run \<noteq> []" "list_all isSeparator run" "ys = [] \<or> \<not> isSeparator (hd ys)"
  shows "replaceSeparatorRuns (run @ ys) = 0x2D # replaceSeparatorRuns ys"
proof -
  from assms(1) obtain c run' where r: "run = c # run'" by (cases run) auto
  with assms(2) have c: "isSeparator c" and r': "list_all isSeparator run'" by auto
  have "dropWhile isSeparator (run' @ ys) = dropWhile isSeparator ys"
    using r' by (intro dropWhile_append2) (simp add: list_all_iff)
  also have "\<dots> = ys" using assms(3) by (cases ys) auto
  finally show ?thesis using c by (simp add: r)
qed

text \<open>No run reaches over the end of a part that ends outside a run.\<close>

lemma replaceSeparatorRuns_append:
  "xs \<noteq> [] \<Longrightarrow> \<not> isSeparator (last xs) \<Longrightarrow>
   replaceSeparatorRuns (xs @ zs) = replaceSeparatorRuns xs @ replaceSeparatorRuns zs"
proof (induction xs rule: replaceSeparatorRuns.induct)
  case 1
  then show ?case by simp
next
  case (2 c cs)
  show ?case
  proof (cases "isSeparator c")
    case False
    show ?thesis
    proof (cases "cs = []")
      case True
      with False show ?thesis by simp
    next
      case ne: False
      with 2 False show ?thesis by simp
    qed
  next
    case True
    with "2.prems" have ne: "cs \<noteq> []" and l: "\<not> isSeparator (last cs)"
      by (auto split: if_splits)
    then have mem: "last cs \<in> set cs" by simp
    have d: "dropWhile isSeparator (cs @ zs) = dropWhile isSeparator cs @ zs"
      using mem l by (rule dropWhile_append1)
    have dne: "dropWhile isSeparator cs \<noteq> []"
      using mem l by (auto simp: dropWhile_eq_Nil_conv)
    have dl: "last (dropWhile isSeparator cs) = last cs"
      using dne by (metis last_appendR takeWhile_dropWhile_id)
    from "2.IH"(1) [OF True dne] l dl
    have "replaceSeparatorRuns (dropWhile isSeparator cs @ zs) =
          replaceSeparatorRuns (dropWhile isSeparator cs) @ replaceSeparatorRuns zs"
      by simp
    with True d show ?thesis by simp
  qed
qed

lemma replaceSeparatorRuns_collapse:
  assumes "run \<noteq> []" "list_all isSeparator run"
    and "xs = [] \<or> \<not> isSeparator (last xs)" "ys = [] \<or> \<not> isSeparator (hd ys)"
  shows "replaceSeparatorRuns (xs @ run @ ys) =
         replaceSeparatorRuns xs @ [0x2D] @ replaceSeparatorRuns ys"
proof (cases "xs = []")
  case True
  with assms show ?thesis by (simp add: replaceSeparatorRuns_run)
next
  case False
  with assms(3) have "\<not> isSeparator (last xs)" by simp
  from replaceSeparatorRuns_append [OF False this, of "run @ ys"]
  show ?thesis using assms by (simp add: replaceSeparatorRuns_run)
qed

lemma chooseSectionId_typed:
  "chooseSectionId (Some s) r =
     (if normalizeSectionId s = [] then randomSectionId r else normalizeSectionId s)"
  by (auto simp: chooseSectionId_def truthy_def normalizeSectionId_def trim_def trimStart_def
      trimEnd_def)

lemma chooseSectionId_absent: "chooseSectionId None r = randomSectionId r"
  by (simp add: chooseSectionId_def truthy_def)

lemma randomSectionId_eq: "randomSectionId r = take 6 (drop 2 r)"
  by (auto simp: randomSectionId_def substring_def Let_def min_def max_def)

text \<open>
  What the random ID is, whatever the rendering: the first six digits after the point,
  or all of them when there are fewer.
\<close>

lemma randomSectionId_general:
  "isRandomRendering r \<Longrightarrow>
   length (randomSectionId r) = min 6 (length r - 2) \<and>
   list_all isBase36Digit (randomSectionId r)"
  unfolding randomSectionId_eq isRandomRendering_def
  by (auto simp: str_def list_all_iff dest: in_set_takeD)

lemma slice_drop_md: "sliceString (stem @ str ''.md'') 0 (- 3) = stem"
  by (simp add: sliceString_def str_def Let_def)

text \<open>\<open>contains\<close> holds when the string splits around an occurrence of \<open>q\<close>.\<close>

lemma contains_iff: "contains s q \<longleftrightarrow> (\<exists>pre post. s = pre @ q @ post)"
proof (induction s)
  case Nil
  then show ?case by auto
next
  case (Cons c cs)
  have "take (length q) (c # cs) = q \<longleftrightarrow> (\<exists>post. c # cs = q @ post)"
    by (metis append_eq_conv_conj append_take_drop_id)
  moreover have "(\<exists>pre post. c # cs = pre @ q @ post) \<longleftrightarrow>
      (\<exists>post. c # cs = q @ post) \<or> (\<exists>pre post. cs = pre @ q @ post)"
  proof
    assume "\<exists>pre post. c # cs = pre @ q @ post"
    then obtain pre post where e: "c # cs = pre @ q @ post" by blast
    show "(\<exists>post. c # cs = q @ post) \<or> (\<exists>pre post. cs = pre @ q @ post)"
    proof (cases pre)
      case Nil
      with e show ?thesis by auto
    next
      case (Cons a pre')
      with e have "cs = pre' @ q @ post" by simp
      then show ?thesis by blast
    qed
  next
    assume "(\<exists>post. c # cs = q @ post) \<or> (\<exists>pre post. cs = pre @ q @ post)"
    then show "\<exists>pre post. c # cs = pre @ q @ post"
    proof
      assume "\<exists>post. c # cs = q @ post"
      then obtain post where "c # cs = [] @ q @ post" by auto
      then show ?thesis by blast
    next
      assume "\<exists>pre post. cs = pre @ q @ post"
      then obtain pre post where "c # cs = (c # pre) @ q @ post" by auto
      then show ?thesis by blast
    qed
  qed
  ultimately show ?case using Cons.IH by simp
qed

section \<open>The loops\<close>

lemma shortenLoop_count:
  "count \<le> 1 \<Longrightarrow>
   shortenLoop note allNotes count =
     (if 1 < count + length (filter (\<lambda>f. basename f = basename note) allNotes)
      then sliceString (path note) 0 (- 3) else basename note)"
  by (induction allNotes arbitrary: count) (auto simp: Let_def)

lemma textSuggestLoop_eq:
  "textSuggestLoop lower suggestions query i filtered =
     filtered @ filter (\<lambda>s. contains (lower s) query) (drop i (take 1000 suggestions))"
proof (induction lower suggestions query i filtered rule: textSuggestLoop.induct)
  case (1 lower suggestions query i filtered)
  show ?case
  proof (cases "i < min (length suggestions) 1000")
    case True
    then have d: "drop i (take 1000 suggestions) =
        suggestions ! i # drop (Suc i) (take 1000 suggestions)"
      by (simp add: Cons_nth_drop_Suc [symmetric])
    show ?thesis
      using True "1.IH" [OF True]
      by (subst textSuggestLoop.simps) (simp add: d)
  next
    case False
    then have e: "drop i (take 1000 suggestions) = []" by auto
    have "textSuggestLoop lower suggestions query i filtered = filtered"
      using False by (subst textSuggestLoop.simps) (simp only: if_False)
    with e show ?thesis by simp
  qed
qed

lemma noteSuggestLoop_eq:
  "noteSuggestLoop lower suggestions query i filtered =
     filtered @ filter (\<lambda>f. contains (lower (path f)) query) (drop i (take 1000 suggestions))"
proof (induction lower suggestions query i filtered rule: noteSuggestLoop.induct)
  case (1 lower suggestions query i filtered)
  show ?case
  proof (cases "i < min (length suggestions) 1000")
    case True
    then have d: "drop i (take 1000 suggestions) =
        suggestions ! i # drop (Suc i) (take 1000 suggestions)"
      by (simp add: Cons_nth_drop_Suc [symmetric])
    show ?thesis
      using True "1.IH" [OF True]
      by (subst noteSuggestLoop.simps) (simp add: d)
  next
    case False
    then have e: "drop i (take 1000 suggestions) = []" by auto
    have "noteSuggestLoop lower suggestions query i filtered = filtered"
      using False by (subst noteSuggestLoop.simps) (simp only: if_False)
    with e show ?thesis by simp
  qed
qed

section \<open>Character pools: the active members\<close>

lemma countActive_eq:
  "countActive pools n = n + length (concat (map charNotes (filter isEnabled pools)))"
  by (induction pools arbitrary: n) auto

text \<open>
  Filling keeps the array in the shape "written slots, then empty slots": with \<open>xs\<close>
  written and \<open>k\<close> slots left, writing \<open>cs\<close> from index \<open>length xs\<close> on leaves
  \<open>xs @ cs\<close> written.
\<close>

lemma fillFromPool_prefix:
  "length cs \<le> k \<Longrightarrow>
   fillFromPool (map Some xs @ replicate k None) (length xs) cs =
     (map Some (xs @ cs) @ replicate (k - length cs) None, length xs + length cs)"
proof (induction cs arbitrary: xs k)
  case Nil
  then show ?case by simp
next
  case (Cons c cs)
  then obtain k' where k: "k = Suc k'" by (cases k) auto
  have step: "setIndex (map Some xs @ None # replicate k' None) (length xs) c =
      map Some xs @ Some c # replicate k' None"
    by (simp add: setIndex_def list_update_append)
  from Cons.prems k have "length cs \<le> k'" by simp
  from Cons.IH [OF this, of "xs @ [c]"] show ?case
    by (simp add: step k)
qed

lemma fillFromPools_prefix:
  "length (concat (map charNotes (filter isEnabled pools))) \<le> k \<Longrightarrow>
   fillFromPools (map Some xs @ replicate k None) (length xs) pools =
     map Some (xs @ concat (map charNotes (filter isEnabled pools))) @
     replicate (k - length (concat (map charNotes (filter isEnabled pools)))) None"
proof (induction pools arbitrary: xs k)
  case Nil
  then show ?case by simp
next
  case (Cons pool pools)
  show ?case
  proof (cases "isEnabled pool")
    case False
    with Cons show ?thesis by simp
  next
    case True
    let ?cs = "charNotes pool"
    let ?rest = "concat (map charNotes (filter isEnabled pools))"
    from Cons.prems True have le: "length ?cs \<le> k" and le': "length ?rest \<le> k - length ?cs"
      by simp_all
    have "fillFromPools (map Some xs @ replicate k None) (length xs) (pool # pools) =
          fillFromPools (map Some (xs @ ?cs) @ replicate (k - length ?cs) None)
            (length (xs @ ?cs)) pools"
      using True by (simp add: fillFromPool_prefix [OF le])
    also have "\<dots> = map Some ((xs @ ?cs) @ ?rest) @
                     replicate (k - length ?cs - length ?rest) None"
      by (rule Cons.IH [OF le'])
    finally show ?thesis using True by simp
  qed
qed

lemma getActiveCharNotes_eq:
  "getActiveCharNotes pools = map Some (concat (map charNotes (filter isEnabled pools)))"
proof -
  let ?a = "concat (map charNotes (filter isEnabled pools))"
  have "fillFromPools (map Some [] @ replicate (length ?a) None) (length ([]::jsstring list)) pools =
        map Some ([] @ ?a) @ replicate (length ?a - length ?a) None"
    by (rule fillFromPools_prefix) simp
  then show ?thesis
    by (simp add: getActiveCharNotes_def countActive_eq Let_def)
qed

section \<open>Facts about the handlers\<close>

lemma settings_emit [simp]: "settings (emit p cs) = settings p"
  by (simp add: emit_def)

lemma appVault_emit [simp]: "appVault (emit p cs) = appVault p"
  by (simp add: emit_def)

lemma insertions_emit:
  "insertions (emit p cs) = insertions p @ concat (map insertedText cs)"
  by (simp add: insertions_def emit_def)

lemma no_insertedText:
  "list_all (\<lambda>c. \<not> isEditorCall c) cs \<Longrightarrow> concat (map insertedText cs) = []"
proof (induction cs)
  case Nil
  then show ?case by simp
next
  case (Cons c cs)
  then show ?case by (cases c) simp_all
qed

lemma untouched_emit:
  "list_all (\<lambda>c. \<not> isEditorCall c) cs \<Longrightarrow> untouched p (emit p cs)"
  by (simp add: untouched_def emit_def)

text \<open>A handler that has inserted text has not left the document alone.\<close>

lemma inserted_not_untouched:
  "insertions p' \<noteq> insertions p \<Longrightarrow> \<not> untouched p p'"
proof
  assume ne: "insertions p' \<noteq> insertions p" and u: "untouched p p'"
  from u have t: "take (length (calls p)) (calls p') = calls p"
    and d: "list_all (\<lambda>c. \<not> isEditorCall c) (drop (length (calls p)) (calls p'))"
    by (simp_all add: untouched_def)
  have "calls p' = calls p @ drop (length (calls p)) (calls p')"
    using t by (metis append_take_drop_id)
  then have "insertions p' = insertions p @ concat (map insertedText (drop (length (calls p)) (calls p')))"
    by (metis concat_append insertions_def map_append)
  with no_insertedText [OF d] ne show False by simp
qed

lemma promptForCharacter_calls:
  "promptForCharacter pools v selected = (cs, res) \<Longrightarrow> list_all (\<lambda>c. \<not> isEditorCall c) cs"
  by (auto simp: promptForCharacter_def Let_def split: if_splits option.splits)

lemma promptForCharacter_None:
  "promptForCharacter pools v None = (cs, res) \<Longrightarrow> res = None"
  by (auto simp: promptForCharacter_def Let_def split: if_splits)

lemma insertions_characterReference:
  assumes "promptForCharacter (characterPools (settings p)) (appVault p) selected = (cs, Some note)"
  shows "insertions (addCharacterReference p editor selected typed) =
     insertions p @
     [if truthy typed
      then str ''[['' @ shortenNotePath note (appVault p) @ str ''|'' @ the typed @ str '']]''
      else str ''[['' @ shortenNotePath note (appVault p) @ str '']]'']"
proof -
  have "concat (map insertedText cs) = []"
    using promptForCharacter_calls [OF assms] by (rule no_insertedText)
  then show ?thesis
    by (simp add: addCharacterReference_def assms promptForAlias_def Let_def insertions_emit
        truthy_def split: option.splits)
qed

lemma insertions_characterDiag:
  assumes "promptForCharacter (characterPools (settings p)) (appVault p) selected = (cs, Some note)"
  shows "insertions (addCharacterDiag p editor selected typed) =
     insertions p @
     [str ''> <span class='' @ [0x22] @ str ''left-align'' @ [0x22] @ str ''>'' @
      (if truthy typed
       then str ''[['' @ shortenNotePath note (appVault p) @ str ''|'' @ the typed @ str '']]''
       else str ''[['' @ shortenNotePath note (appVault p) @ str '']]'') @
      str ''</span>'' @ [0x0A] @ str ''> '' @ [0x201C, 0x201D]]"
proof -
  have "concat (map insertedText cs) = []"
    using promptForCharacter_calls [OF assms] by (rule no_insertedText)
  then show ?thesis
    by (simp add: addCharacterDiag_def assms promptForAlias_def Let_def insertions_emit
        truthy_def split: option.splits)
qed

lemma insertions_insertSectionWikilink:
  "insertions (insertSectionWikilink p editor viewFile (Some target) typed r) =
     insertions p @
     [str ''[['' @ shortenNotePath target (appVault p) @ str ''#^'' @ chooseSectionId typed r @
      str ''|'' @ (if getSelection editor = [] then str ''Replace this'' else getSelection editor) @
      str '']]'']"
  by (simp add: insertSectionWikilink_def Let_def insertions_def emit_def)

lemma addSectionWikilink_picked:
  "sectionNotes (settings p) = [] \<Longrightarrow>
   addSectionWikilink p editor viewFile picked selected typed r =
     insertSectionWikilink (emit p [NoteSuggestModal (str ''Append to which note?'')])
       editor viewFile picked typed r"
  by (simp add: addSectionWikilink_def)

lemma addSectionWikilink_selected:
  "sectionNotes (settings p) \<noteq> [] \<Longrightarrow> s \<noteq> [] \<Longrightarrow>
   addSectionWikilink p editor viewFile picked (Some s) typed r =
     insertSectionWikilink
       (emit p [TextSuggestModal (map Some (sectionNotes (settings p)))
                  (str ''Append to which note?'')])
       editor viewFile (getFileByPath (appVault p) s) typed r"
  by (simp add: addSectionWikilink_def)

lemma examplePrompt:
  "promptForCharacter (characterPools (settings examplePlugin)) (appVault examplePlugin)
     (Some (str ''cast/Bob.md'')) =
   ([TextSuggestModal [Some (str ''cast/Bob.md'')] (str ''Which character to reference?'')],
    Some bobNote)"
  by (simp add: promptForCharacter_def getActiveCharNotes_eq examplePlugin_def exampleVault_def
      bobNote_def str_def)

lemma exampleShort: "shortenNotePath bobNote (appVault examplePlugin) = str ''Bob''"
  by (simp add: shortenNotePath_def examplePlugin_def exampleVault_def bobNote_def
      draftNote_def str_def)

section \<open>Facts about the settings\<close>

lemma distinct_splice1: "distinct xs \<Longrightarrow> distinct (splice1 xs i)"
  by (auto simp: splice1_def set_take_disj_set_drop_if_distinct)

lemma sectionNotes_setPools [simp]:
  "sectionNotes (settings (setPools p pools)) = sectionNotes (settings p)"
  by (simp add: setPools_def)

lemma settings_addDramaticEllipsis: "settings (addDramaticEllipsis p editor) = settings p"
  by (simp add: addDramaticEllipsis_def Let_def)

lemma settings_addCharacterDiag:
  "settings (addCharacterDiag p editor selected typed) = settings p"
  by (simp add: addCharacterDiag_def Let_def promptForAlias_def split: prod.splits option.splits)

lemma settings_addCharacterReference:
  "settings (addCharacterReference p editor selected typed) = settings p"
  by (simp add: addCharacterReference_def Let_def promptForAlias_def
      split: prod.splits option.splits)

lemma settings_insertSectionWikilink:
  "settings (insertSectionWikilink p editor viewFile target typed r) = settings p"
  by (simp add: insertSectionWikilink_def Let_def emit_def split: option.splits)

lemma settings_addSectionWikilink:
  "settings (addSectionWikilink p editor viewFile picked selected typed r) = settings p"
  by (simp add: addSectionWikilink_def Let_def settings_insertSectionWikilink
      split: option.splits)

lemma sectionNotes_pool_handlers:
  "sectionNotes (settings (onAddPool p typed)) = sectionNotes (settings p)"
  "sectionNotes (settings (onEditPool p i typed)) = sectionNotes (settings p)"
  "sectionNotes (settings (onAddCharacter p i picked)) = sectionNotes (settings p)"
  "sectionNotes (settings (onRemovePool p i response)) = sectionNotes (settings p)"
  "sectionNotes (settings (onTogglePool p i b)) = sectionNotes (settings p)"
  "sectionNotes (settings (onRemoveCharacter p i j)) = sectionNotes (settings p)"
  "sectionNotes (settings (onChangeSeparator p s)) = sectionNotes (settings p)"
  by (simp_all add: onAddPool_def onEditPool_def onAddCharacter_def onRemovePool_def
      onTogglePool_def onRemoveCharacter_def onChangeSeparator_def Let_def split: option.splits)

lemma distinct_onAddSectionNote:
  "distinct (sectionNotes (settings p)) \<Longrightarrow>
   distinct (sectionNotes (settings (onAddSectionNote p picked)))"
  by (simp add: onAddSectionNote_def Let_def split: option.splits)

lemma distinct_onRemoveSectionNote:
  "distinct (sectionNotes (settings p)) \<Longrightarrow>
   distinct (sectionNotes (settings (onRemoveSectionNote p i)))"
  by (simp add: onRemoveSectionNote_def distinct_splice1)

text \<open>The invariant, by induction on how the state was reached.\<close>

lemma reachable_distinct: "reachable p \<Longrightarrow> distinct (sectionNotes (settings p))"
proof (induction rule: reachable.induct)
  case (onload v)
  show ?case by (simp add: loadSettings_def DEFAULT_SETTINGS_def)
next
  case (reload p v)
  then show ?case by (simp add: loadSettings_def)
next
  case (vaultChanged p v)
  then show ?case by simp
next
  case (dramaticEllipsis p editor)
  then show ?case by (simp add: settings_addDramaticEllipsis)
next
  case (characterDiag p editor selected typed)
  then show ?case by (simp add: settings_addCharacterDiag)
next
  case (characterReference p editor selected typed)
  then show ?case by (simp add: settings_addCharacterReference)
next
  case (sectionWikilink p editor viewFile picked selected typed r)
  then show ?case by (simp add: settings_addSectionWikilink)
next
  case (addSectionNote p picked)
  then show ?case by (simp add: distinct_onAddSectionNote)
next
  case (removeSectionNote p i)
  then show ?case by (simp add: distinct_onRemoveSectionNote)
qed (simp_all add: sectionNotes_pool_handlers)

section \<open>The path shortener on Markdown notes\<close>

text \<open>
  The path shortener on Markdown notes. Let the path of the target be some \<open>stem\<close>
  followed by \<^verbatim>\<open>.md\<close>. If exactly one note of the vault has the base name of the
  target, \<open>shortenNotePath\<close> returns the base name; if two or more have it,
  \<open>shortenNotePath\<close> returns the path without the extension.
\<close>

lemma shortenNotePath_markdown:
  assumes "path target = stem @ str ''.md''"
  shows "(length (filter (\<lambda>f. basename f = basename target) (getMarkdownFiles vault)) = 1 \<longrightarrow>
            shortenNotePath target vault = basename target) \<and>
         (2 \<le> length (filter (\<lambda>f. basename f = basename target) (getMarkdownFiles vault)) \<longrightarrow>
            shortenNotePath target vault = stem)"
  using assms by (simp add: shortenNotePath_def shortenLoop_count slice_drop_md)

text \<open>
  On two vaults: Ann alone is linked by her name; with a second Ann in another folder
  she is linked by her path.
\<close>

lemma shortenNotePath_markdown_example:
  "path \<lparr>path = str ''cast/Ann.md'', basename = str ''Ann''\<rparr> = str ''cast/Ann'' @ str ''.md'' \<and>
   shortenNotePath \<lparr>path = str ''cast/Ann.md'', basename = str ''Ann''\<rparr>
     \<lparr>getMarkdownFiles =
        [\<lparr>path = str ''cast/Ann.md'', basename = str ''Ann''\<rparr>,
         \<lparr>path = str ''Bob.md'', basename = str ''Bob''\<rparr>],
      getFileByPath = (\<lambda>p. None), contents = (\<lambda>p. None)\<rparr> = str ''Ann'' \<and>
   shortenNotePath \<lparr>path = str ''cast/Ann.md'', basename = str ''Ann''\<rparr>
     \<lparr>getMarkdownFiles =
        [\<lparr>path = str ''cast/Ann.md'', basename = str ''Ann''\<rparr>,
         \<lparr>path = str ''old/Ann.md'', basename = str ''Ann''\<rparr>],
      getFileByPath = (\<lambda>p. None), contents = (\<lambda>p. None)\<rparr> = str ''cast/Ann''"
proof -
  have p: "path \<lparr>path = str ''cast/Ann.md'', basename = str ''Ann''\<rparr> =
           str ''cast/Ann'' @ str ''.md''"
    by (simp add: str_def)
  show ?thesis
    using p
      shortenNotePath_markdown [OF p,
        of "\<lparr>getMarkdownFiles =
              [\<lparr>path = str ''cast/Ann.md'', basename = str ''Ann''\<rparr>,
               \<lparr>path = str ''Bob.md'', basename = str ''Bob''\<rparr>],
            getFileByPath = (\<lambda>p. None), contents = (\<lambda>p. None)\<rparr>"]
      shortenNotePath_markdown [OF p,
        of "\<lparr>getMarkdownFiles =
              [\<lparr>path = str ''cast/Ann.md'', basename = str ''Ann''\<rparr>,
               \<lparr>path = str ''old/Ann.md'', basename = str ''Ann''\<rparr>],
            getFileByPath = (\<lambda>p. None), contents = (\<lambda>p. None)\<rparr>"]
    by (simp add: str_def)
qed

section \<open>The claims\<close>

text \<open>
  Claim C1, as amended. In every handler, when the prompt that selects the note or the
  character resolves with no value, the handler stops with settings and vault as they
  were and without a call on the editor. The prompts for the alias and for the section
  ID are different: when one of them resolves with no value the handler goes on, with
  the plain link or with a generated ID, and edits the document.
\<close>

theorem selection_cancel_aborts:
  "untouched p (addCharacterReference p editor None typed) \<and>
   untouched p (addCharacterDiag p editor None typed) \<and>
   untouched p (addSectionWikilink p editor viewFile None None typed r) \<and>
   (promptForCharacter (characterPools (settings p)) (appVault p) selected = (cs, Some charNote) \<longrightarrow>
      \<not> untouched p (addCharacterReference p editor selected None) \<and>
      \<not> untouched p (addCharacterDiag p editor selected None)) \<and>
   (sectionNotes (settings p) = [] \<longrightarrow>
      \<not> untouched p (addSectionWikilink p editor viewFile (Some target) None None r)) \<and>
   (sectionNotes (settings p) \<noteq> [] \<and> s \<noteq> [] \<and> getFileByPath (appVault p) s = Some target \<longrightarrow>
      \<not> untouched p (addSectionWikilink p editor viewFile None (Some s) None r))"
proof -
  obtain cs' res where pc:
    "promptForCharacter (characterPools (settings p)) (appVault p) None = (cs', res)"
    by (cases "promptForCharacter (characterPools (settings p)) (appVault p) None")
  from promptForCharacter_None [OF pc] have res: "res = None" .
  from promptForCharacter_calls [OF pc] have cs': "list_all (\<lambda>c. \<not> isEditorCall c) cs'" .
  have a: "untouched p (addCharacterReference p editor None typed)"
    by (simp add: addCharacterReference_def pc res untouched_emit [OF cs'])
  have b: "untouched p (addCharacterDiag p editor None typed)"
    by (simp add: addCharacterDiag_def pc res untouched_emit [OF cs'])
  have c: "untouched p (addSectionWikilink p editor viewFile None None typed r)"
    by (simp add: addSectionWikilink_def insertSectionWikilink_def Let_def untouched_def emit_def)
  have d: "\<not> untouched p (addCharacterReference p editor selected None) \<and>
           \<not> untouched p (addCharacterDiag p editor selected None)"
    if "promptForCharacter (characterPools (settings p)) (appVault p) selected = (cs, Some charNote)"
    using insertions_characterReference [OF that, of editor None]
      insertions_characterDiag [OF that, of editor None]
    by (simp add: inserted_not_untouched)
  have e: "\<not> untouched p (addSectionWikilink p editor viewFile (Some target) None None r)"
    if "sectionNotes (settings p) = []"
    by (rule inserted_not_untouched)
      (simp add: addSectionWikilink_picked [OF that] insertions_insertSectionWikilink
        insertions_emit)
  have f: "\<not> untouched p (addSectionWikilink p editor viewFile None (Some s) None r)"
    if "sectionNotes (settings p) \<noteq> []" "s \<noteq> []" "getFileByPath (appVault p) s = Some target"
    by (rule inserted_not_untouched)
      (simp add: addSectionWikilink_selected [OF that(1,2)] that(3)
        insertions_insertSectionWikilink insertions_emit)
  from a b c d e f show ?thesis by blast
qed

text \<open>
  The theorem at the example vault: with the character prompt cancelled only the prompt
  and a notice are recorded; with Bob selected and the alias prompt left without a
  value the handler has touched the document.
\<close>

theorem selection_cancel_aborts_witness:
  "untouched examplePlugin (addCharacterReference examplePlugin exampleEditor None None) \<and>
   calls (addCharacterReference examplePlugin exampleEditor None None) =
     [TextSuggestModal [Some (str ''cast/Bob.md'')] (str ''Which character to reference?''),
      Notice (str ''No character selected.'')] \<and>
   untouched examplePlugin
     (addSectionWikilink examplePlugin exampleEditor None None None None (str ''0.i'')) \<and>
   promptForCharacter (characterPools (settings examplePlugin)) (appVault examplePlugin)
     (Some (str ''cast/Bob.md'')) =
     ([TextSuggestModal [Some (str ''cast/Bob.md'')] (str ''Which character to reference?'')],
      Some bobNote) \<and>
   \<not> untouched examplePlugin
       (addCharacterDiag examplePlugin exampleEditor (Some (str ''cast/Bob.md'')) None) \<and>
   sectionNotes (settings examplePlugin) \<noteq> [] \<and>
   getFileByPath (appVault examplePlugin) (str ''cast/Bob.md'') = Some bobNote \<and>
   \<not> untouched examplePlugin
       (addSectionWikilink examplePlugin exampleEditor None None (Some (str ''cast/Bob.md''))
          None (str ''0.i''))"
proof -
  have ne: "sectionNotes (settings examplePlugin) \<noteq> []"
    by (simp add: examplePlugin_def)
  have s: "str ''cast/Bob.md'' \<noteq> []"
    by (simp add: str_def)
  have g: "getFileByPath (appVault examplePlugin) (str ''cast/Bob.md'') = Some bobNote"
    by (simp add: examplePlugin_def exampleVault_def bobNote_def)
  have c: "calls (addCharacterReference examplePlugin exampleEditor None None) =
     [TextSuggestModal [Some (str ''cast/Bob.md'')] (str ''Which character to reference?''),
      Notice (str ''No character selected.'')]"
    by (simp add: addCharacterReference_def promptForCharacter_def getActiveCharNotes_eq
        emit_def examplePlugin_def bobNote_def)
  from examplePrompt ne s g c
    selection_cancel_aborts [where p = examplePlugin and editor = exampleEditor
      and typed = None and viewFile = None and r = "str ''0.i''"
      and selected = "Some (str ''cast/Bob.md'')" and charNote = bobNote
      and cs = "[TextSuggestModal [Some (str ''cast/Bob.md'')]
                   (str ''Which character to reference?'')]"
      and s = "str ''cast/Bob.md''" and target = bobNote]
  show ?thesis by simp
qed

text \<open>
  Claim C1 as stated fails at the alias prompt. In the example vault the user selects
  Bob and the alias prompt then resolves with no value: the handler does not stop, it
  replaces the selection with the plain link. Likewise, with the note selected and the
  section-ID prompt resolving with no value, the link with a generated ID is inserted
  and the target note is rewritten.
\<close>

theorem text_prompt_absent_still_edits:
  "\<not> untouched examplePlugin
       (addCharacterReference examplePlugin exampleEditor (Some (str ''cast/Bob.md'')) None) \<and>
   insertions
     (addCharacterReference examplePlugin exampleEditor (Some (str ''cast/Bob.md'')) None) =
     [str ''[[Bob]]''] \<and>
   insertions
     (addSectionWikilink examplePlugin exampleEditor None None (Some (str ''cast/Bob.md''))
        None (str ''0.4fzyo82mvyr'')) =
     [str ''[[Bob#^4fzyo8|the bridge]]''] \<and>
   contents
     (appVault
        (addSectionWikilink examplePlugin exampleEditor None None (Some (str ''cast/Bob.md''))
           None (str ''0.4fzyo82mvyr'')))
     (str ''cast/Bob.md'') =
     Some (str ''Bob builds.'' @ [0x0A, 0x0A] @ str ''---'' @ [0x0A] @
           str ''the bridge ^4fzyo8'' @ [0x0A])"
proof -
  have a: "calls
     (addCharacterReference examplePlugin exampleEditor (Some (str ''cast/Bob.md'')) None) =
     [TextSuggestModal [Some (str ''cast/Bob.md'')] (str ''Which character to reference?''),
      PromptModal (str ''Enter character alias (leave blank for note name):'') (str ''Bob''),
      ReplaceSelection (str ''[[Bob]]''), Focus]"
    by (simp add: addCharacterReference_def examplePrompt promptForAlias_def emit_def
        exampleShort)
       (simp add: examplePlugin_def bobNote_def str_def)
  have ne: "sectionNotes (settings examplePlugin) \<noteq> []"
    by (simp add: examplePlugin_def)
  have s: "str ''cast/Bob.md'' \<noteq> []"
    by (simp add: str_def)
  have g: "getFileByPath (appVault examplePlugin) (str ''cast/Bob.md'') = Some bobNote"
    by (simp add: examplePlugin_def exampleVault_def bobNote_def)
  have i: "chooseSectionId None (str ''0.4fzyo82mvyr'') = str ''4fzyo8''"
    by (simp add: chooseSectionId_absent randomSectionId_eq str_def)
  have sel: "getSelection exampleEditor = str ''the bridge''" "str ''the bridge'' \<noteq> []"
    by (simp_all add: exampleEditor_def str_def)
  have b: "insertions
     (addSectionWikilink examplePlugin exampleEditor None None (Some (str ''cast/Bob.md''))
        None (str ''0.4fzyo82mvyr'')) =
     [str ''[[Bob#^4fzyo8|the bridge]]'']"
    by (simp add: addSectionWikilink_selected [OF ne s] g insertions_insertSectionWikilink
        insertions_emit exampleShort i sel)
       (simp add: insertions_def examplePlugin_def str_def)
  have t: "trimEnd (str ''Bob builds.'' @ [0x0A]) = str ''Bob builds.''"
    by (rule trimEnd_append) (simp_all add: isWhiteSpace_def str_def)
  have c: "contents
     (appVault
        (addSectionWikilink examplePlugin exampleEditor None None (Some (str ''cast/Bob.md''))
           None (str ''0.4fzyo82mvyr'')))
     (str ''cast/Bob.md'') =
     Some (str ''Bob builds.'' @ [0x0A, 0x0A] @ str ''---'' @ [0x0A] @
           str ''the bridge ^4fzyo8'' @ [0x0A])"
    by (simp add: addSectionWikilink_selected [OF ne s] g insertSectionWikilink_def Let_def
        i sel process_def appendSection_def emit_def)
       (simp add: examplePlugin_def exampleVault_def bobNote_def appendSection_def t,
        simp add: str_def)
  from a have "\<not> untouched examplePlugin
       (addCharacterReference examplePlugin exampleEditor (Some (str ''cast/Bob.md'')) None)"
    by (simp add: untouched_def examplePlugin_def)
  moreover from a have "insertions
     (addCharacterReference examplePlugin exampleEditor (Some (str ''cast/Bob.md'')) None) =
     [str ''[[Bob]]'']"
    by (simp add: insertions_def)
  ultimately show ?thesis using b c by simp
qed

text \<open>
  Claim C2 says that every call of the section-ID generator returns exactly six
  characters out of \<^verbatim>\<open>a-z0-9\<close>. The code does not keep that. The generator cuts
  the positions 2 to 7 out of the rendering, so a rendering with fewer than six digits
  after the point gives a shorter ID (\<open>randomSectionId_general\<close> above says what holds
  in general). One half is 18/36: the random number 0.5 is rendered \<^verbatim>\<open>0.i\<close>, and
  the ID is the one character \<^verbatim>\<open>i\<close>; zero is rendered \<^verbatim>\<open>0\<close>, and the ID is
  empty. Both are numbers the random source can give.
\<close>

theorem randomSectionId_short_rendering:
  "isRandomRendering (str ''0.i'') \<and>
   2 * digitsValue (str ''i'') = 36 ^ length (str ''i'') \<and>
   randomSectionId (str ''0.i'') = str ''i'' \<and>
   length (randomSectionId (str ''0.i'')) = 1 \<and>
   isRandomRendering (str ''0'') \<and>
   randomSectionId (str ''0'') = []"
  by (simp add: randomSectionId_eq str_def isRandomRendering_def isBase36Digit_def
      digitsValue_def digitValue_def)

text \<open>
  Claim C3 says that for every target note, when two or more notes share its base
  name, the path shortener returns the path of the target without its extension
  suffix. The code does not keep that. It cuts the last three code units of the path,
  which are the extension only when the file is a Markdown file
  (\<open>shortenNotePath_markdown\<close> above says what holds for those). The target is any
  file the vault answers for a stored path, and the default settings store the path
  \<^verbatim>\<open>Test Note\<close>. With a file of that path in the vault, which has no extension, and
  two Markdown notes of that base name, the shortener returns \<^verbatim>\<open>Test N\<close>, and the
  section command of a freshly loaded plugin links to it. A file
  \<^verbatim>\<open>cast/Ann.markdown\<close> with two notes named Ann is shortened to
  \<^verbatim>\<open>cast/Ann.markd\<close>.
\<close>

theorem shortenNotePath_cuts_three:
  "path testNote = str ''Test Note'' \<and>
   length (filter (\<lambda>f. basename f = basename testNote) (getMarkdownFiles testVault)) = 2 \<and>
   shortenNotePath testNote testVault = str ''Test N'' \<and>
   getFileByPath testVault (str ''Test Note'') = Some testNote \<and>
   sectionNotes (loadSettings None) = [str ''Test Note''] \<and>
   insertions
     (addSectionWikilink \<lparr>settings = loadSettings None, appVault = testVault, calls = []\<rparr>
        exampleEditor None None (Some (str ''Test Note'')) (Some (str ''id1'')) (str ''0.i'')) =
     [str ''[[Test N#^id1|the bridge]]''] \<and>
   shortenNotePath \<lparr>path = str ''cast/Ann.markdown'', basename = str ''Ann''\<rparr>
     \<lparr>getMarkdownFiles =
        [\<lparr>path = str ''Ann.md'', basename = str ''Ann''\<rparr>,
         \<lparr>path = str ''old/Ann.md'', basename = str ''Ann''\<rparr>],
      getFileByPath = (\<lambda>p. None), contents = (\<lambda>p. None)\<rparr> = str ''cast/Ann.markd''"
proof -
  let ?p = "\<lparr>settings = loadSettings None, appVault = testVault, calls = []\<rparr>"
  have short: "shortenNotePath testNote testVault = str ''Test N''"
    by (simp add: shortenNotePath_def testVault_def testNote_def sliceString_def str_def)
  have ne: "sectionNotes (settings ?p) \<noteq> []"
    by (simp add: loadSettings_def DEFAULT_SETTINGS_def)
  have s: "str ''Test Note'' \<noteq> []"
    by (simp add: str_def)
  have g: "getFileByPath testVault (str ''Test Note'') = Some testNote"
    by (simp add: testVault_def testNote_def)
  have i: "chooseSectionId (Some (str ''id1'')) (str ''0.i'') = str ''id1''"
    by (simp add: chooseSectionId_typed normalizeSectionId_def trim_def trimStart_def
        trimEnd_def str_def isWhiteSpace_def isSeparator_def isIdChar_def)
  have sel: "getSelection exampleEditor = str ''the bridge''" "str ''the bridge'' \<noteq> []"
    by (simp_all add: exampleEditor_def str_def)
  have e: "insertions ?p = []"
    by (simp add: insertions_def)
  have ins: "insertions
     (addSectionWikilink ?p exampleEditor None None (Some (str ''Test Note''))
        (Some (str ''id1'')) (str ''0.i'')) =
     [str ''[[Test N#^id1|the bridge]]'']"
    by (simp add: addSectionWikilink_selected [OF ne s] g insertions_insertSectionWikilink
        insertions_emit i sel short e)
       (simp add: str_def)
  have ann: "shortenNotePath \<lparr>path = str ''cast/Ann.markdown'', basename = str ''Ann''\<rparr>
     \<lparr>getMarkdownFiles =
        [\<lparr>path = str ''Ann.md'', basename = str ''Ann''\<rparr>,
         \<lparr>path = str ''old/Ann.md'', basename = str ''Ann''\<rparr>],
      getFileByPath = (\<lambda>p. None), contents = (\<lambda>p. None)\<rparr> = str ''cast/Ann.markd''"
    by (simp add: shortenNotePath_def sliceString_def str_def)
  from short g ins ann show ?thesis
    by (simp add: testVault_def testNote_def loadSettings_def DEFAULT_SETTINGS_def)
qed

text \<open>
  Claim C4. The normalised section ID is the typed text trimmed, then with each run
  of white space and underscores replaced by one hyphen, then without the characters
  outside \<^verbatim>\<open>A-Za-z0-9-\<close>. Trimming removes the white space around a body that neither
  begins nor ends with white space; the replacement leaves a text without separators
  as it is and puts one hyphen for a run that lies between \<open>xs\<close> and \<open>ys\<close>; nothing
  but letters, digits and hyphens is left. \<^verbatim>\<open>My Section!! 2\<close> becomes
  \<^verbatim>\<open>My-Section-2\<close>; three spaces, and \<^verbatim>\<open>##\<close>, become the empty string; and when
  the normalised ID is empty the random ID is taken, otherwise the normalised one.
\<close>

theorem normalizeSectionId_spec:
  "normalizeSectionId s = filter isIdChar (replaceSeparatorRuns (trim s)) \<and>
   list_all isIdChar (normalizeSectionId s) \<and>
   (list_all isWhiteSpace before \<and> list_all isWhiteSpace after \<and>
    (body = [] \<or> (\<not> isWhiteSpace (hd body) \<and> \<not> isWhiteSpace (last body))) \<longrightarrow>
      trim (before @ body @ after) = body) \<and>
   (list_all (\<lambda>c. \<not> isSeparator c) zs \<longrightarrow> replaceSeparatorRuns zs = zs) \<and>
   (run \<noteq> [] \<and> list_all isSeparator run \<and>
    (xs = [] \<or> \<not> isSeparator (last xs)) \<and> (ys = [] \<or> \<not> isSeparator (hd ys)) \<longrightarrow>
      replaceSeparatorRuns (xs @ run @ ys) =
        replaceSeparatorRuns xs @ [0x2D] @ replaceSeparatorRuns ys) \<and>
   normalizeSectionId (str ''My Section!! 2'') = str ''My-Section-2'' \<and>
   normalizeSectionId (str ''   '') = [] \<and>
   normalizeSectionId (str ''##'') = [] \<and>
   (normalizeSectionId s = [] \<longrightarrow> chooseSectionId (Some s) r = randomSectionId r) \<and>
   (normalizeSectionId s \<noteq> [] \<longrightarrow> chooseSectionId (Some s) r = normalizeSectionId s)"
proof -
  have a: "normalizeSectionId s = filter isIdChar (replaceSeparatorRuns (trim s))"
    by (simp add: normalizeSectionId_def removeOtherChars_filter)
  have b: "list_all isIdChar (normalizeSectionId s)"
    by (simp add: a list_all_iff)
  have c: "normalizeSectionId (str ''My Section!! 2'') = str ''My-Section-2''"
    by (simp add: normalizeSectionId_def trim_def trimStart_def trimEnd_def str_def
        isWhiteSpace_def isSeparator_def isIdChar_def)
  have d: "normalizeSectionId (str ''   '') = []"
    by (simp add: normalizeSectionId_def trim_def trimStart_def trimEnd_def str_def
        isWhiteSpace_def isSeparator_def isIdChar_def)
  have e: "normalizeSectionId (str ''##'') = []"
    by (simp add: normalizeSectionId_def trim_def trimStart_def trimEnd_def str_def
        isWhiteSpace_def isSeparator_def isIdChar_def)
  from a b c d e show ?thesis
    by (simp add: trim_append replaceSeparatorRuns_id replaceSeparatorRuns_collapse
        chooseSectionId_typed)
qed

text \<open>
  The theorem on typed IDs: one with white space around it and a mixed run inside,
  and one of which nothing is left, so that the random ID is taken.
\<close>

theorem normalizeSectionId_spec_witness:
  "trim (str ''  a _b '') = str ''a _b'' \<and>
   replaceSeparatorRuns (str ''a _b'') = str ''a-b'' \<and>
   replaceSeparatorRuns (str ''a-b'') = str ''a-b'' \<and>
   normalizeSectionId (str ''  a _b '') = str ''a-b'' \<and>
   chooseSectionId (Some (str ''  a _b '')) (str ''0.4fzyo82mvyr'') = str ''a-b'' \<and>
   normalizeSectionId (str ''##'') = [] \<and>
   chooseSectionId (Some (str ''##'')) (str ''0.4fzyo82mvyr'') = str ''4fzyo8''"
proof -
  have ws: "list_all isWhiteSpace (str ''  '')" "list_all isWhiteSpace (str '' '')"
    by (simp_all add: str_def isWhiteSpace_def)
  have body: "\<not> isWhiteSpace (hd (str ''a _b''))" "\<not> isWhiteSpace (last (str ''a _b''))"
    by (simp_all add: str_def isWhiteSpace_def)
  have run: "str '' _'' \<noteq> []" "list_all isSeparator (str '' _'')"
    by (simp_all add: str_def isSeparator_def isWhiteSpace_def)
  have ends: "\<not> isSeparator (last (str ''a''))" "\<not> isSeparator (hd (str ''b''))"
    by (simp_all add: str_def isSeparator_def isWhiteSpace_def)
  have plain: "list_all (\<lambda>c. \<not> isSeparator c) (str ''a-b'')"
    "list_all (\<lambda>c. \<not> isSeparator c) (str ''a'')" "list_all (\<lambda>c. \<not> isSeparator c) (str ''b'')"
    by (simp_all add: str_def isSeparator_def isWhiteSpace_def)
  have cat: "str ''  a _b '' = str ''  '' @ str ''a _b'' @ str '' ''"
    "str ''a _b'' = str ''a'' @ str '' _'' @ str ''b''"
    "str ''a-b'' = str ''a'' @ [0x2D] @ str ''b''"
    by (simp_all add: str_def)
  have ids: "filter isIdChar (str ''a-b'') = str ''a-b''"
    by (simp add: str_def isIdChar_def)
  have rnd: "randomSectionId (str ''0.4fzyo82mvyr'') = str ''4fzyo8''" "str ''a-b'' \<noteq> []"
    by (simp_all add: randomSectionId_eq str_def)
  note t1 = normalizeSectionId_spec [where s = "str ''  a _b ''" and before = "str ''  ''"
      and body = "str ''a _b''" and after = "str '' ''" and zs = "str ''a-b''"
      and run = "str '' _''" and xs = "str ''a''" and ys = "str ''b''"
      and r = "str ''0.4fzyo82mvyr''"]
  note t2 = normalizeSectionId_spec [where s = "str ''##''" and before = "str ''  ''"
      and body = "str ''a _b''" and after = "str '' ''" and zs = "str ''a''"
      and run = "str '' _''" and xs = "str ''a''" and ys = "str ''b''"
      and r = "str ''0.4fzyo82mvyr''"]
  note t3 = normalizeSectionId_spec [where s = "str ''##''" and before = "str ''  ''"
      and body = "str ''a _b''" and after = "str '' ''" and zs = "str ''b''"
      and run = "str '' _''" and xs = "str ''a''" and ys = "str ''b''"
      and r = "str ''0.4fzyo82mvyr''"]
  from t1 ws body have tr': "trim (str ''  '' @ str ''a _b'' @ str '' '') = str ''a _b''"
    by blast
  then have tr: "trim (str ''  a _b '') = str ''a _b''"
    by (simp only: cat(1))
  from t1 run ends
  have "replaceSeparatorRuns (str ''a'' @ str '' _'' @ str ''b'') =
        replaceSeparatorRuns (str ''a'') @ [0x2D] @ replaceSeparatorRuns (str ''b'')"
    by blast
  moreover from t2 plain have "replaceSeparatorRuns (str ''a'') = str ''a''"
    by blast
  moreover from t3 plain have "replaceSeparatorRuns (str ''b'') = str ''b''"
    by blast
  ultimately have rep: "replaceSeparatorRuns (str ''a _b'') = str ''a-b''"
    by (simp only: cat(2,3))
  from t1 plain have rep': "replaceSeparatorRuns (str ''a-b'') = str ''a-b''"
    by blast
  from t1 have "normalizeSectionId (str ''  a _b '') =
      filter isIdChar (replaceSeparatorRuns (trim (str ''  a _b '')))"
    by blast
  then have n: "normalizeSectionId (str ''  a _b '') = str ''a-b''"
    by (simp only: tr rep ids)
  from t1 n rnd(2)
  have ch: "chooseSectionId (Some (str ''  a _b '')) (str ''0.4fzyo82mvyr'') = str ''a-b''"
    by metis
  from t2 have e: "normalizeSectionId (str ''##'') = []"
    by blast
  with t2 rnd(1)
  have ch': "chooseSectionId (Some (str ''##'')) (str ''0.4fzyo82mvyr'') = str ''4fzyo8''"
    by metis
  from tr rep rep' n ch e ch' show ?thesis by blast
qed

text \<open>
  Claim C5, as amended. The function handed to \<^verbatim>\<open>vault.process\<close> trims the trailing
  white space of the content exactly when the target is not the file of the open
  document, and only then looks whether anything is left. For the open document: an
  empty content gives \<^verbatim>\<open><selection> ^<id>\<close> and a line feed, any other content is
  kept whole and followed by separator, selection and ID. For another file: a content
  of white space only (the empty one among them) gives \<^verbatim>\<open><selection> ^<id>\<close> and a
  line feed with no separator, and a content \<open>body @ ws\<close>, \<open>ws\<close> its trailing white
  space, gives \<open>body\<close>, separator, selection and ID. The command writes the result of
  this function to the target note.
\<close>

theorem appendSection_cases:
  "(Some target = viewFile \<longrightarrow>
      appendSection target viewFile separator selection sectionId [] =
        selection @ str '' ^'' @ sectionId @ [0x0A]) \<and>
   (Some target = viewFile \<and> content \<noteq> [] \<longrightarrow>
      appendSection target viewFile separator selection sectionId content =
        content @ separator @ selection @ str '' ^'' @ sectionId @ [0x0A]) \<and>
   (Some target \<noteq> viewFile \<and> list_all isWhiteSpace ws \<longrightarrow>
      appendSection target viewFile separator selection sectionId ws =
        selection @ str '' ^'' @ sectionId @ [0x0A]) \<and>
   (Some target \<noteq> viewFile \<and> list_all isWhiteSpace ws \<and>
    body \<noteq> [] \<and> \<not> isWhiteSpace (last body) \<longrightarrow>
      appendSection target viewFile separator selection sectionId (body @ ws) =
        body @ separator @ selection @ str '' ^'' @ sectionId @ [0x0A]) \<and>
   (contents (appVault p) (path target) = Some content \<longrightarrow>
      contents (appVault (insertSectionWikilink p editor viewFile (Some target) typed r))
        (path target) =
        Some (appendSection target viewFile (sectionSeparator (settings p))
                (if getSelection editor = [] then str ''Replace this'' else getSelection editor)
                (chooseSectionId typed r) content))"
proof -
  have a: "appendSection target viewFile separator selection sectionId [] =
        selection @ str '' ^'' @ sectionId @ [0x0A]"
    by (simp add: appendSection_def trimEnd_def)
  have b: "appendSection target viewFile separator selection sectionId content =
           content @ separator @ selection @ str '' ^'' @ sectionId @ [0x0A]"
    if "Some target = viewFile" "content \<noteq> []"
    using that by (simp add: appendSection_def)
  have c: "appendSection target viewFile separator selection sectionId ws =
        selection @ str '' ^'' @ sectionId @ [0x0A]"
    if "Some target \<noteq> viewFile" "list_all isWhiteSpace ws"
    using that trimEnd_append [of ws "[]"] by (simp add: appendSection_def)
  have d: "appendSection target viewFile separator selection sectionId (body @ ws) =
           body @ separator @ selection @ str '' ^'' @ sectionId @ [0x0A]"
    if "Some target \<noteq> viewFile" "list_all isWhiteSpace ws" "body \<noteq> []"
      "\<not> isWhiteSpace (last body)"
    using that trimEnd_append [of ws body] by (simp add: appendSection_def)
  have e: "contents (appVault (insertSectionWikilink p editor viewFile (Some target) typed r))
        (path target) =
        Some (appendSection target viewFile (sectionSeparator (settings p))
                (if getSelection editor = [] then str ''Replace this'' else getSelection editor)
                (chooseSectionId typed r) content)"
    if "contents (appVault p) (path target) = Some content"
    using that by (simp add: insertSectionWikilink_def Let_def process_def emit_def)
  from a b c d e show ?thesis by blast
qed

text \<open>
  The theorem on Bob's note: appended to while it is the open document its trailing
  blank stays, appended to from the draft the blank goes; and the command, run from
  the draft, leaves Bob's note with the new section after the separator.
\<close>

theorem appendSection_cases_witness:
  "appendSection bobNote (Some bobNote) (str ''--'') (str ''Sel'') (str ''id1'') (str ''x '') =
     str ''x --Sel ^id1'' @ [0x0A] \<and>
   appendSection bobNote (Some bobNote) (str ''--'') (str ''Sel'') (str ''id1'') [] =
     str ''Sel ^id1'' @ [0x0A] \<and>
   appendSection bobNote (Some draftNote) (str ''--'') (str ''Sel'') (str ''id1'') (str '' '') =
     str ''Sel ^id1'' @ [0x0A] \<and>
   appendSection bobNote (Some draftNote) (str ''--'') (str ''Sel'') (str ''id1'') (str ''x '') =
     str ''x--Sel ^id1'' @ [0x0A] \<and>
   contents (appVault examplePlugin) (path bobNote) = Some (str ''Bob builds.'' @ [0x0A]) \<and>
   contents
     (appVault (insertSectionWikilink examplePlugin exampleEditor (Some draftNote) (Some bobNote)
                  (Some (str ''id1'')) (str ''0.i'')))
     (path bobNote) =
     Some (str ''Bob builds.'' @ [0x0A, 0x0A] @ str ''---'' @ [0x0A] @
           str ''the bridge ^id1'' @ [0x0A])"
proof -
  have same: "Some bobNote = Some bobNote" and other: "Some bobNote \<noteq> Some draftNote"
    by (simp_all add: bobNote_def draftNote_def str_def)
  have ws: "list_all isWhiteSpace (str '' '')" "list_all isWhiteSpace [0x0A]"
    by (simp_all add: str_def isWhiteSpace_def)
  have body: "str ''x'' \<noteq> []" "\<not> isWhiteSpace (last (str ''x''))" "str ''x '' \<noteq> []"
    "str ''Bob builds.'' \<noteq> []" "\<not> isWhiteSpace (last (str ''Bob builds.''))"
    by (simp_all add: str_def isWhiteSpace_def)
  have cat: "str ''x '' = str ''x'' @ str '' ''"
    by (simp add: str_def)
  have c: "contents (appVault examplePlugin) (path bobNote) = Some (str ''Bob builds.'' @ [0x0A])"
    by (simp add: examplePlugin_def exampleVault_def)
  have i: "chooseSectionId (Some (str ''id1'')) (str ''0.i'') = str ''id1''"
    by (simp add: chooseSectionId_typed normalizeSectionId_def trim_def trimStart_def
        trimEnd_def str_def isWhiteSpace_def isSeparator_def isIdChar_def)
  have sel: "getSelection exampleEditor = str ''the bridge''" "str ''the bridge'' \<noteq> []"
    by (simp_all add: exampleEditor_def str_def)
  have sep: "sectionSeparator (settings examplePlugin) = [0x0A, 0x0A] @ str ''---'' @ [0x0A]"
    by (simp add: examplePlugin_def)
  note t1 = appendSection_cases [where target = bobNote and viewFile = "Some bobNote"
      and separator = "str ''--''" and selection = "str ''Sel''" and sectionId = "str ''id1''"
      and content = "str ''x ''" and ws = "str '' ''" and body = "str ''x''"
      and p = examplePlugin and editor = exampleEditor and typed = "Some (str ''id1'')"
      and r = "str ''0.i''"]
  note t2 = appendSection_cases [where target = bobNote and viewFile = "Some draftNote"
      and separator = "str ''--''" and selection = "str ''Sel''" and sectionId = "str ''id1''"
      and content = "str ''Bob builds.'' @ [0x0A]" and ws = "str '' ''" and body = "str ''x''"
      and p = examplePlugin and editor = exampleEditor and typed = "Some (str ''id1'')"
      and r = "str ''0.i''"]
  note t3 = appendSection_cases [where target = bobNote and viewFile = "Some draftNote"
      and separator = "[0x0A, 0x0A] @ str ''---'' @ [0x0A]" and selection = "str ''the bridge''"
      and sectionId = "str ''id1''"
      and content = "str ''Bob builds.'' @ [0x0A]" and ws = "[0x0A]"
      and body = "str ''Bob builds.''"
      and p = examplePlugin and editor = exampleEditor and typed = "Some (str ''id1'')"
      and r = "str ''0.i''"]
  from t1 same body have w1:
    "appendSection bobNote (Some bobNote) (str ''--'') (str ''Sel'') (str ''id1'') (str ''x '') =
     str ''x '' @ str ''--'' @ str ''Sel'' @ str '' ^'' @ str ''id1'' @ [0x0A]"
    by blast
  from t1 same have w2:
    "appendSection bobNote (Some bobNote) (str ''--'') (str ''Sel'') (str ''id1'') [] =
     str ''Sel'' @ str '' ^'' @ str ''id1'' @ [0x0A]"
    by blast
  from t2 other ws have w3:
    "appendSection bobNote (Some draftNote) (str ''--'') (str ''Sel'') (str ''id1'') (str '' '') =
     str ''Sel'' @ str '' ^'' @ str ''id1'' @ [0x0A]"
    by blast
  from t2 other ws body have w4:
    "appendSection bobNote (Some draftNote) (str ''--'') (str ''Sel'') (str ''id1'')
       (str ''x'' @ str '' '') =
     str ''x'' @ str ''--'' @ str ''Sel'' @ str '' ^'' @ str ''id1'' @ [0x0A]"
    by blast
  from t2 c have w5: "contents
     (appVault (insertSectionWikilink examplePlugin exampleEditor (Some draftNote) (Some bobNote)
                  (Some (str ''id1'')) (str ''0.i'')))
     (path bobNote) =
     Some (appendSection bobNote (Some draftNote) (sectionSeparator (settings examplePlugin))
             (if getSelection exampleEditor = [] then str ''Replace this''
              else getSelection exampleEditor)
             (chooseSectionId (Some (str ''id1'')) (str ''0.i'')) (str ''Bob builds.'' @ [0x0A]))"
    by blast
  from t3 other ws body have w6:
    "appendSection bobNote (Some draftNote) ([0x0A, 0x0A] @ str ''---'' @ [0x0A])
       (str ''the bridge'') (str ''id1'') (str ''Bob builds.'' @ [0x0A]) =
     str ''Bob builds.'' @ ([0x0A, 0x0A] @ str ''---'' @ [0x0A]) @ str ''the bridge'' @
     str '' ^'' @ str ''id1'' @ [0x0A]"
    by blast
  from w1 w2 w3 w4 [folded cat] c w5 [unfolded i sel sep] w6 sel(2) show ?thesis
    by (simp add: str_def)
qed

text \<open>
  Claim C5 as stated fails on a note of white space only that is not the open
  document. Bob's note holds one line feed, which is not the empty content; the
  document open is the draft. The claim gives the trimmed content, the separator and
  the section; the code gives the section with no separator.
\<close>

theorem appendSection_whitespace_only:
  "[0x0A] \<noteq> ([] :: jsstring) \<and>
   Some bobNote \<noteq> Some draftNote \<and>
   appendSection bobNote (Some draftNote) (str ''--'') (str ''Sel'') (str ''id1'') [0x0A] =
     str ''Sel ^id1'' @ [0x0A] \<and>
   appendSection bobNote (Some draftNote) (str ''--'') (str ''Sel'') (str ''id1'') [0x0A] \<noteq>
     trimEnd [0x0A] @ str ''--'' @ str ''Sel ^id1'' @ [0x0A]"
  by (simp add: appendSection_def trimEnd_def isWhiteSpace_def bobNote_def draftNote_def str_def)

text \<open>
  Claim C6. For every sequence of pools, \<open>getActiveCharNotes\<close> returns the members of
  the enabled pools, concatenated in pool order and, within a pool, in member order,
  every slot of the array written; it returns the empty array when every enabled pool
  (if there is one) has no members.
\<close>

theorem getActiveCharNotes_concat:
  "getActiveCharNotes pools = map Some (concat (map charNotes (filter isEnabled pools))) \<and>
   (list_all (\<lambda>p. isEnabled p \<longrightarrow> charNotes p = []) pools \<longrightarrow> getActiveCharNotes pools = [])"
  by (simp add: getActiveCharNotes_eq list_all_iff)

theorem getActiveCharNotes_concat_witness:
  "getActiveCharNotes
     [\<lparr>name = str ''P'', charNotes = [str ''a''], isEnabled = False\<rparr>,
      \<lparr>name = str ''Q'', charNotes = [str ''b'', str ''c''], isEnabled = True\<rparr>] =
     [Some (str ''b''), Some (str ''c'')] \<and>
   list_all (\<lambda>p. isEnabled p \<longrightarrow> charNotes p = [])
     [\<lparr>name = str ''P'', charNotes = [str ''a''], isEnabled = False\<rparr>,
      \<lparr>name = str ''Q'', charNotes = [], isEnabled = True\<rparr>] \<and>
   getActiveCharNotes
     [\<lparr>name = str ''P'', charNotes = [str ''a''], isEnabled = False\<rparr>,
      \<lparr>name = str ''Q'', charNotes = [], isEnabled = True\<rparr>] = [] \<and>
   getActiveCharNotes [] = []"
  using getActiveCharNotes_concat
          [of "[\<lparr>name = str ''P'', charNotes = [str ''a''], isEnabled = False\<rparr>,
                \<lparr>name = str ''Q'', charNotes = [str ''b'', str ''c''], isEnabled = True\<rparr>]"]
        getActiveCharNotes_concat
          [of "[\<lparr>name = str ''P'', charNotes = [str ''a''], isEnabled = False\<rparr>,
                \<lparr>name = str ''Q'', charNotes = [], isEnabled = True\<rparr>]"]
        getActiveCharNotes_concat [of "[]"]
  by simp

text \<open>
  Claim C7. Once the character is resolved, the character reference inserts
  \<^verbatim>\<open>[[<shortPath>]]\<close> when the alias prompt gives no alias and
  \<^verbatim>\<open>[[<shortPath>|<alias>]]\<close> when it gives the alias (a non-empty text); the dialog
  block inserts the same link inside its blockquote; and the section command, once the
  target note is resolved, inserts \<^verbatim>\<open>[[<shortPath>#^<sectionId>|<displayText>]]\<close>,
  the display text being the selection (or \<^verbatim>\<open>Replace this\<close> when nothing is
  selected). Alias, display text and section ID stand in the link as they are, with no
  escaping.
\<close>

theorem link_markup:
  "(promptForCharacter (characterPools (settings p)) (appVault p) selected = (cs, Some charNote) \<longrightarrow>
      insertions (addCharacterReference p editor selected None) =
        insertions p @ [str ''[['' @ shortenNotePath charNote (appVault p) @ str '']]''] \<and>
      (typedAlias \<noteq> [] \<longrightarrow>
         insertions (addCharacterReference p editor selected (Some typedAlias)) =
           insertions p @
           [str ''[['' @ shortenNotePath charNote (appVault p) @ str ''|'' @ typedAlias @ str '']]'']) \<and>
      insertions (addCharacterDiag p editor selected None) =
        insertions p @
        [str ''> <span class='' @ [0x22] @ str ''left-align'' @ [0x22] @ str ''>'' @
         str ''[['' @ shortenNotePath charNote (appVault p) @ str '']]'' @
         str ''</span>'' @ [0x0A] @ str ''> '' @ [0x201C, 0x201D]] \<and>
      (typedAlias \<noteq> [] \<longrightarrow>
         insertions (addCharacterDiag p editor selected (Some typedAlias)) =
           insertions p @
           [str ''> <span class='' @ [0x22] @ str ''left-align'' @ [0x22] @ str ''>'' @
            str ''[['' @ shortenNotePath charNote (appVault p) @ str ''|'' @ typedAlias @ str '']]'' @
            str ''</span>'' @ [0x0A] @ str ''> '' @ [0x201C, 0x201D]])) \<and>
   (sectionNotes (settings p) = [] \<longrightarrow>
      insertions (addSectionWikilink p editor viewFile (Some target) selectedNote typed r) =
        insertions p @
        [str ''[['' @ shortenNotePath target (appVault p) @ str ''#^'' @ chooseSectionId typed r @
         str ''|'' @
         (if getSelection editor = [] then str ''Replace this'' else getSelection editor) @
         str '']]'']) \<and>
   (sectionNotes (settings p) \<noteq> [] \<and> s \<noteq> [] \<and> getFileByPath (appVault p) s = Some target \<longrightarrow>
      insertions (addSectionWikilink p editor viewFile picked (Some s) typed r) =
        insertions p @
        [str ''[['' @ shortenNotePath target (appVault p) @ str ''#^'' @ chooseSectionId typed r @
         str ''|'' @
         (if getSelection editor = [] then str ''Replace this'' else getSelection editor) @
         str '']]''])"
proof -
  have chr: "insertions (addCharacterReference p editor selected None) =
        insertions p @ [str ''[['' @ shortenNotePath charNote (appVault p) @ str '']]''] \<and>
      (typedAlias \<noteq> [] \<longrightarrow>
         insertions (addCharacterReference p editor selected (Some typedAlias)) =
           insertions p @
           [str ''[['' @ shortenNotePath charNote (appVault p) @ str ''|'' @ typedAlias @ str '']]'']) \<and>
      insertions (addCharacterDiag p editor selected None) =
        insertions p @
        [str ''> <span class='' @ [0x22] @ str ''left-align'' @ [0x22] @ str ''>'' @
         str ''[['' @ shortenNotePath charNote (appVault p) @ str '']]'' @
         str ''</span>'' @ [0x0A] @ str ''> '' @ [0x201C, 0x201D]] \<and>
      (typedAlias \<noteq> [] \<longrightarrow>
         insertions (addCharacterDiag p editor selected (Some typedAlias)) =
           insertions p @
           [str ''> <span class='' @ [0x22] @ str ''left-align'' @ [0x22] @ str ''>'' @
            str ''[['' @ shortenNotePath charNote (appVault p) @ str ''|'' @ typedAlias @ str '']]'' @
            str ''</span>'' @ [0x0A] @ str ''> '' @ [0x201C, 0x201D]])"
    if pc: "promptForCharacter (characterPools (settings p)) (appVault p) selected =
            (cs, Some charNote)"
    by (simp add: insertions_characterReference [OF pc] insertions_characterDiag [OF pc]
        truthy_def)
  have picked: "insertions (addSectionWikilink p editor viewFile (Some target) selectedNote typed r) =
        insertions p @
        [str ''[['' @ shortenNotePath target (appVault p) @ str ''#^'' @ chooseSectionId typed r @
         str ''|'' @
         (if getSelection editor = [] then str ''Replace this'' else getSelection editor) @
         str '']]'']"
    if "sectionNotes (settings p) = []"
    by (simp add: addSectionWikilink_picked [OF that] insertions_insertSectionWikilink
        insertions_emit)
  have sel: "insertions (addSectionWikilink p editor viewFile picked (Some s) typed r) =
        insertions p @
        [str ''[['' @ shortenNotePath target (appVault p) @ str ''#^'' @ chooseSectionId typed r @
         str ''|'' @
         (if getSelection editor = [] then str ''Replace this'' else getSelection editor) @
         str '']]'']"
    if "sectionNotes (settings p) \<noteq> []" "s \<noteq> []" "getFileByPath (appVault p) s = Some target"
    by (simp add: addSectionWikilink_selected [OF that(1,2)] that(3)
        insertions_insertSectionWikilink insertions_emit)
  from chr picked sel show ?thesis by blast
qed

text \<open>
  The theorem in the example vault: Bob without and with an alias, and a section of
  Bob's note with the selected words as display text.
\<close>

theorem link_markup_witness:
  "promptForCharacter (characterPools (settings examplePlugin)) (appVault examplePlugin)
     (Some (str ''cast/Bob.md'')) =
     ([TextSuggestModal [Some (str ''cast/Bob.md'')] (str ''Which character to reference?'')],
      Some bobNote) \<and>
   insertions (addCharacterReference examplePlugin exampleEditor (Some (str ''cast/Bob.md'')) None) =
     [str ''[[Bob]]''] \<and>
   insertions (addCharacterReference examplePlugin exampleEditor (Some (str ''cast/Bob.md''))
                 (Some (str ''Al|]]''))) =
     [str ''[[Bob|Al|]]]]''] \<and>
   insertions (addSectionWikilink examplePlugin exampleEditor None None
                 (Some (str ''cast/Bob.md'')) (Some (str ''id1'')) (str ''0.i'')) =
     [str ''[[Bob#^id1|the bridge]]'']"
proof -
  have ne: "sectionNotes (settings examplePlugin) \<noteq> []"
    by (simp add: examplePlugin_def)
  have s: "str ''cast/Bob.md'' \<noteq> []" "str ''Al|]]'' \<noteq> []"
    by (simp_all add: str_def)
  have g: "getFileByPath (appVault examplePlugin) (str ''cast/Bob.md'') = Some bobNote"
    by (simp add: examplePlugin_def exampleVault_def bobNote_def)
  have i: "chooseSectionId (Some (str ''id1'')) (str ''0.i'') = str ''id1''"
    by (simp add: chooseSectionId_typed normalizeSectionId_def trim_def trimStart_def
        trimEnd_def str_def isWhiteSpace_def isSeparator_def isIdChar_def)
  have sel: "getSelection exampleEditor = str ''the bridge''" "str ''the bridge'' \<noteq> []"
    by (simp_all add: exampleEditor_def str_def)
  have e: "insertions examplePlugin = []"
    by (simp add: insertions_def examplePlugin_def)
  from examplePrompt ne s g
    link_markup [where p = examplePlugin and editor = exampleEditor
      and selected = "Some (str ''cast/Bob.md'')" and charNote = bobNote
      and cs = "[TextSuggestModal [Some (str ''cast/Bob.md'')]
                   (str ''Which character to reference?'')]"
      and typedAlias = "str ''Al|]]''" and viewFile = None and target = bobNote and picked = None
      and selectedNote = None and s = "str ''cast/Bob.md''" and typed = "Some (str ''id1'')"
      and r = "str ''0.i''"]
  show ?thesis
    by (simp add: exampleShort i sel e) (simp add: str_def)
qed

text \<open>
  Claim C8. In every state a session can reach, no path stands twice in
  \<open>sectionNotes\<close>. The button that adds a note looks the path up first: a path that
  is in the list leaves the settings as they are and raises the notice
  \<^verbatim>\<open>Note already added.\<close>; a path that is not is put at the end.
\<close>

theorem sectionNotes_distinct:
  "(reachable p \<longrightarrow> distinct (sectionNotes (settings p))) \<and>
   (path picked \<in> set (sectionNotes (settings p)) \<longrightarrow>
      settings (onAddSectionNote p (Some picked)) = settings p \<and>
      calls (onAddSectionNote p (Some picked)) =
        calls p @ [NoteSuggestModal (str ''Type to search for a note...''),
                   Notice (str ''Note already added.'')]) \<and>
   (path picked \<notin> set (sectionNotes (settings p)) \<longrightarrow>
      sectionNotes (settings (onAddSectionNote p (Some picked))) =
        sectionNotes (settings p) @ [path picked])"
  by (simp add: reachable_distinct onAddSectionNote_def Let_def emit_def)

text \<open>
  The theorem on a fresh plugin to which Bob's note is added, and on the example
  plugin, which has Bob's note already.
\<close>

theorem sectionNotes_distinct_witness:
  "reachable (onAddSectionNote \<lparr>settings = loadSettings None, appVault = exampleVault, calls = []\<rparr>
                (Some bobNote)) \<and>
   sectionNotes (settings (onAddSectionNote
      \<lparr>settings = loadSettings None, appVault = exampleVault, calls = []\<rparr> (Some bobNote))) =
     [str ''Test Note'', str ''cast/Bob.md''] \<and>
   distinct (sectionNotes (settings (onAddSectionNote
      \<lparr>settings = loadSettings None, appVault = exampleVault, calls = []\<rparr> (Some bobNote)))) \<and>
   path bobNote \<in> set (sectionNotes (settings examplePlugin)) \<and>
   settings (onAddSectionNote examplePlugin (Some bobNote)) = settings examplePlugin"
proof -
  let ?p0 = "\<lparr>settings = loadSettings None, appVault = exampleVault, calls = []\<rparr>"
  have r: "reachable (onAddSectionNote ?p0 (Some bobNote))"
    by (intro reachable.addSectionNote reachable.onload)
  have n: "path bobNote \<notin> set (sectionNotes (settings ?p0))"
    by (simp add: loadSettings_def DEFAULT_SETTINGS_def bobNote_def str_def)
  have m: "path bobNote \<in> set (sectionNotes (settings examplePlugin))"
    by (simp add: examplePlugin_def)
  from r n m
    sectionNotes_distinct [of "onAddSectionNote ?p0 (Some bobNote)" bobNote]
    sectionNotes_distinct [of ?p0 bobNote]
    sectionNotes_distinct [of examplePlugin bobNote]
  show ?thesis
    by (simp add: loadSettings_def DEFAULT_SETTINGS_def bobNote_def)
qed

text \<open>
  Claim C9. When no enabled pool has a member (there is no enabled pool, or the
  enabled ones are empty), \<open>promptForCharacter\<close> raises the notice
  \<^verbatim>\<open>No active characters to reference.\<close> and returns no note; the notice is its only
  call, so the selection prompt is not opened, whatever the user would have selected.
\<close>

theorem promptForCharacter_no_active:
  "list_all (\<lambda>pool. isEnabled pool \<longrightarrow> charNotes pool = []) pools \<Longrightarrow>
   promptForCharacter pools vault selectedCharNote =
     ([Notice (str ''No active characters to reference.'')], None)"
  by (simp add: promptForCharacter_def getActiveCharNotes_eq list_all_iff)

text \<open>The theorem on a vault whose only pool, with Bob in it, is switched off.\<close>

theorem promptForCharacter_no_active_witness:
  "list_all (\<lambda>pool. isEnabled pool \<longrightarrow> charNotes pool = [])
     [\<lparr>name = str ''Cast'', charNotes = [str ''cast/Bob.md''], isEnabled = False\<rparr>] \<and>
   promptForCharacter
     [\<lparr>name = str ''Cast'', charNotes = [str ''cast/Bob.md''], isEnabled = False\<rparr>]
     exampleVault (Some (str ''cast/Bob.md'')) =
     ([Notice (str ''No active characters to reference.'')], None)"
proof -
  have h: "list_all (\<lambda>pool. isEnabled pool \<longrightarrow> charNotes pool = [])
     [\<lparr>name = str ''Cast'', charNotes = [str ''cast/Bob.md''], isEnabled = False\<rparr>]"
    by simp
  from h promptForCharacter_no_active [OF h, of exampleVault "Some (str ''cast/Bob.md'')"]
  show ?thesis by simp
qed

text \<open>
  Claim C10. Whatever \<^verbatim>\<open>toLowerCase\<close> does, both selection prompts offer exactly
  those of the first 1000 suggestions, in their order, whose text (for notes: whose
  path) in lower case has the query in lower case as a substring. A suggestion at
  index 1000 or beyond is not among the first 1000 and is not offered.
\<close>

theorem getSuggestions_filter_first_1000:
  "textGetSuggestions toLowerCase suggestions query =
     filter (\<lambda>s. \<exists>pre post. toLowerCase s = pre @ toLowerCase query @ post)
       (take 1000 suggestions) \<and>
   noteGetSuggestions toLowerCase notes query =
     filter (\<lambda>f. \<exists>pre post. toLowerCase (path f) = pre @ toLowerCase query @ post)
       (take 1000 notes)"
  by (simp add: textGetSuggestions_def noteGetSuggestions_def textSuggestLoop_eq
      noteSuggestLoop_eq contains_iff)

text \<open>The theorem on three paths and the query \<^verbatim>\<open>aNN\<close>, with lower case on ASCII.\<close>

theorem getSuggestions_filter_first_1000_witness:
  "textGetSuggestions asciiLower [str ''cast/Ann.md'', str ''Bob.md'', str ''Hanna.md'']
     (str ''aNN'') =
     [str ''cast/Ann.md'', str ''Hanna.md''] \<and>
   noteGetSuggestions asciiLower [bobNote, draftNote] (str ''DRAFT'') = [draftNote]"
  using getSuggestions_filter_first_1000
          [of asciiLower "[str ''cast/Ann.md'', str ''Bob.md'', str ''Hanna.md'']" "str ''aNN''"
             "[bobNote, draftNote]"]
        getSuggestions_filter_first_1000
          [of asciiLower "[str ''cast/Ann.md'', str ''Bob.md'', str ''Hanna.md'']" "str ''DRAFT''"
             "[bobNote, draftNote]"]
  unfolding contains_iff [symmetric]
  by (simp add: asciiLower_def str_def bobNote_def draftNote_def)

end
